theory Spec2Isabelle
  imports Main "HOL-Library.Sublist"
begin

section \<open>create-bsv-app: the scaffolding script \<open>bin/bsv-app.js\<close>\<close>

text \<open>
  The script is one asynchronous function \<open>run\<close> that checks the environment, asks
  three questions (or takes defaults), clones a template, rewrites \<open>package.json\<close>,
  installs dependencies and optionally initialises a git repository. Everything it does
  is an effect on the outside world; the model threads a world (the file system, the
  log of effects, the replies the user still has to give) through the steps and makes
  every \<open>process.exit\<close> and every exception a value.
\<close>

subsection \<open>Paths (Node's POSIX \<open>path\<close> module)\<close>

text \<open>
  \<open>path.resolve\<close> and \<open>path.join\<close> are library functions of Node. They are modelled
  after the POSIX implementation: the path is cut at every \<open>/\<close>, the segments are
  normalised by \<open>normalizeString\<close> (empty segments and \<open>.\<close> dropped, \<open>..\<close> removing
  the segment before it) and glued together again.
\<close>

definition sep :: char where
  "sep = CHR ''/''"

text \<open>
  The segments of a path, in order. A path always has at least one segment (the empty
  path has one empty segment), so the first case of the inner \<open>case\<close> never applies.
\<close>

fun split_sep :: "string \<Rightarrow> string list" where
  "split_sep [] = [[]]"
| "split_sep (c # cs) =
     (if c = sep then [] # split_sep cs
      else (case split_sep cs of
              [] \<Rightarrow> [[c]]
            | s # ss \<Rightarrow> (c # s) # ss))"

fun join_sep :: "string list \<Rightarrow> string" where
  "join_sep [] = []"
| "join_sep [s] = s"
| "join_sep (s # t # ss) = s @ sep # join_sep (t # ss)"

text \<open>
  \<open>normalizeString(path, allowAboveRoot)\<close> walks through the path once and keeps the
  result so far in \<open>res\<close>; here \<open>res\<close> holds the segments, last one first. At the end
  of a segment: an empty segment and \<open>.\<close> change nothing; \<open>..\<close> removes the last
  segment of the result unless that is itself a \<open>..\<close>, and when there is nothing to
  remove it is kept only if \<open>allowAboveRoot\<close> is set; any other segment is added.
\<close>

definition normalize_step :: "bool \<Rightarrow> string list \<Rightarrow> string \<Rightarrow> string list" where
  "normalize_step allowAboveRoot res s =
     (if s = [] \<or> s = ''.'' then res
      else if s = ''..'' then
        (case res of
           r # rs \<Rightarrow>
             if r \<noteq> ''..'' then rs
             else if allowAboveRoot then ''..'' # res
             else res
         | [] \<Rightarrow> if allowAboveRoot then [''..''] else [])
      else s # res)"

definition normalize_segments :: "bool \<Rightarrow> string list \<Rightarrow> string list" where
  "normalize_segments allowAboveRoot ss = rev (foldl (normalize_step allowAboveRoot) [] ss)"

definition normalizeString :: "string \<Rightarrow> bool \<Rightarrow> string" where
  "normalizeString p allowAboveRoot =
     join_sep (normalize_segments allowAboveRoot (split_sep p))"

definition isAbsolute :: "string \<Rightarrow> bool" where
  "isAbsolute p = (case p of [] \<Rightarrow> False | c # _ \<Rightarrow> c = sep)"

text \<open>
  The loop of \<open>path.resolve\<close>: the arguments are taken from the right, empty ones are
  skipped, each is put in front of what is there, and the loop stops at the first
  absolute one. The list holds the arguments in the order the loop visits them, with
  \<open>process.cwd()\<close> last.
\<close>

fun resolve_loop :: "string list \<Rightarrow> string \<Rightarrow> string \<times> bool" where
  "resolve_loop [] acc = (acc, False)"
| "resolve_loop (p # ps) acc =
     (if p = [] then resolve_loop ps acc
      else if isAbsolute p then (p @ sep # acc, True)
      else resolve_loop ps (p @ sep # acc))"

definition path_resolve :: "string \<Rightarrow> string list \<Rightarrow> string" where
  "path_resolve process_cwd args =
     (case resolve_loop (rev args @ [process_cwd]) [] of
        (resolvedPath, resolvedAbsolute) \<Rightarrow>
          (let n = normalizeString resolvedPath (\<not> resolvedAbsolute)
           in if resolvedAbsolute then sep # n
              else if n \<noteq> [] then n else ''.''))"

definition path_normalize :: "string \<Rightarrow> string" where
  "path_normalize p =
     (if p = [] then ''.''
      else
        (let absolute = isAbsolute p;
             trailingSeparator = (last p = sep);
             n = normalizeString p (\<not> absolute)
         in if n = [] then
              (if absolute then [sep] else if trailingSeparator then ''./'' else ''.'')
            else
              (let n' = (if trailingSeparator then n @ [sep] else n)
               in if absolute then sep # n' else n')))"

text \<open>\<open>path.join(a, b)\<close>: the non-empty arguments joined by \<open>/\<close>, then normalised.\<close>

definition path_join :: "string \<Rightarrow> string \<Rightarrow> string" where
  "path_join a b =
     (if a = [] \<and> b = [] then ''.''
      else if a = [] then path_normalize b
      else if b = [] then path_normalize a
      else path_normalize (a @ sep # b))"

text \<open>A segment that \<open>normalizeString\<close> keeps as it is: not empty, not \<open>.\<close>, not \<open>..\<close>.\<close>

definition plain_segment :: "string \<Rightarrow> bool" where
  "plain_segment s = (s \<noteq> [] \<and> s \<noteq> ''.'' \<and> s \<noteq> ''..'')"

text \<open>
  Containment of paths, on their normalised segments: \<open>p\<close> lies under \<open>base\<close> when the
  segments of \<open>base\<close> are the first segments of \<open>p\<close>.
\<close>

definition canonical :: "string \<Rightarrow> string list" where
  "canonical p = normalize_segments False (split_sep p)"

definition lies_under :: "string \<Rightarrow> string \<Rightarrow> bool" where
  "lies_under base p = prefix (canonical base) (canonical p)"

subsection \<open>The template registry\<close>

text \<open>
  The object literal \<open>templates\<close>: its entries in source order. \<open>Object.keys\<close> lists the
  labels, \<open>templates[label]\<close> is the entry's URL, or \<open>undefined\<close> (here \<open>None\<close>) when
  the object has no such key. The script looks up either \<open>meter\<close> or a label the user
  chose among the keys, so what \<open>Object.prototype\<close> would answer for names such as
  \<open>toString\<close> is left out.
\<close>

definition templates :: "(string \<times> string) list" where
  "templates =
     [(''Meter - A feature-packed starting point'', ''https://github.com/p2ppsr/meter.git'')]"

definition Object_keys :: "(string \<times> 'v) list \<Rightarrow> string list" where
  "Object_keys obj = map fst obj"

definition templates_lookup :: "string \<Rightarrow> string option" where
  "templates_lookup label = map_of templates label"

subsection \<open>JSON documents\<close>

text \<open>
  A parsed JSON value as JavaScript holds it. An object keeps its properties in
  insertion order; a number is kept as the text \<open>JSON.stringify\<close> prints for it.
\<close>

datatype json =
    JNull
  | JBool bool
  | JNumber string
  | JString string
  | JArray "json list"
  | JObject "(string \<times> json) list"

text \<open>
  \<open>JSON.stringify(value, null, 2)\<close>. A string is quoted, with \<open>"\<close>, the backslash
  and the control characters escaped; an array or object with members puts each member
  on its own line, indented two spaces deeper than the line that opens it.
\<close>

definition hex_digit :: "nat \<Rightarrow> char" where
  "hex_digit n = ''0123456789abcdef'' ! (n mod 16)"

definition escape_char :: "char \<Rightarrow> string" where
  "escape_char c =
     (if c = CHR 0x22 then [CHR 0x5C, CHR 0x22]
      else if c = CHR 0x5C then [CHR 0x5C, CHR 0x5C]
      else if c = CHR 0x08 then [CHR 0x5C, CHR ''b'']
      else if c = CHR 0x0C then [CHR 0x5C, CHR ''f'']
      else if c = CHR 0x0A then [CHR 0x5C, CHR ''n'']
      else if c = CHR 0x0D then [CHR 0x5C, CHR ''r'']
      else if c = CHR 0x09 then [CHR 0x5C, CHR ''t'']
      else if of_char c < (0x20 :: nat) then
        [CHR 0x5C, CHR ''u'', CHR ''0'', CHR ''0'',
         hex_digit (of_char c div 16), hex_digit (of_char c)]
      else [c])"

definition quote :: "string \<Rightarrow> string" where
  "quote s = CHR 0x22 # concat (map escape_char s) @ [CHR 0x22]"

definition newline :: string where
  "newline = [CHR 0x0A]"

fun join_lines :: "string \<Rightarrow> string list \<Rightarrow> string" where
  "join_lines ind [] = []"
| "join_lines ind [x] = ind @ x"
| "join_lines ind (x # y # xs) = ind @ x @ '','' @ newline @ join_lines ind (y # xs)"

fun stringify_at :: "string \<Rightarrow> json \<Rightarrow> string" where
  "stringify_at ind JNull = ''null''"
| "stringify_at ind (JBool b) = (if b then ''true'' else ''false'')"
| "stringify_at ind (JNumber n) = n"
| "stringify_at ind (JString s) = quote s"
| "stringify_at ind (JArray vs) =
     (if vs = [] then ''[]''
      else ''['' @ newline
           @ join_lines (ind @ ''  '') (map (stringify_at (ind @ ''  '')) vs)
           @ newline @ ind @ '']'')"
| "stringify_at ind (JObject kvs) =
     (if kvs = [] then ''{}''
      else ''{'' @ newline
           @ join_lines (ind @ ''  '')
               (map (\<lambda>(k, v). quote k @ '': '' @ stringify_at (ind @ ''  '') v) kvs)
           @ newline @ ind @ ''}'')"

definition JSON_stringify2 :: "json \<Rightarrow> string" where
  "JSON_stringify2 v = stringify_at [] v"

text \<open>
  \<open>obj[key] = value\<close> on an object: an existing property keeps its place and gets the
  new value, a new property goes to the end.
\<close>

fun set_property :: "(string \<times> json) list \<Rightarrow> string \<Rightarrow> json \<Rightarrow> (string \<times> json) list" where
  "set_property [] key v = [(key, v)]"
| "set_property ((k, old) # kvs) key v =
     (if k = key then (k, v) # kvs else (k, old) # set_property kvs key v)"

subsection \<open>Errors, console messages and effects\<close>

text \<open>
  A thrown \<open>Error\<close>: its class, its message, and the \<open>isTtyError\<close> flag that inquirer
  sets on the error it raises when the terminal cannot show a prompt (a missing
  property is read as false).
\<close>

datatype js_error = JsError (error_name: string) (message: string) (isTtyError: bool)

definition SystemError :: "string \<Rightarrow> js_error" where
  "SystemError msg = JsError ''Error'' msg False"

definition SyntaxError :: "string \<Rightarrow> js_error" where
  "SyntaxError msg = JsError ''SyntaxError'' msg False"

definition TypeError :: "string \<Rightarrow> js_error" where
  "TypeError msg = JsError ''TypeError'' msg False"

text \<open>
  The lines the script prints, one constructor for each \<open>console\<close> call of the source,
  with the values it puts into the text; colours are left out.
\<close>

datatype console_message =
    Banner
  | Tagline
  | GitNotInstalled
  | NpmNotInstalled
  | CloningFrom "string option"
  | ClonedTo string
  | CloneError string
  | InstallingIn string
  | InstalledIn string
  | InstallError string string
  | NoPackageJson string
  | ModifiedPackageJson string
  | PromptNotRendered
  | Goodbye
  | UnexpectedError string
  | DirectoryExists string
  | InitializingGit
  | GitInitError string
  | AllDone
  | CdHint string
  | NpmStartHint
  | SigintGoodbye
  | UncaughtError js_error

text \<open>
  What the script does to the outside world, in the order it does it: console output,
  \<open>execSync\<close> with its command and working directory, the two kinds of prompt with
  their message and their choices or default, \<open>git.clone(url, dir)\<close>,
  \<open>fs.removeSync\<close>, \<open>fs.writeJsonSync\<close> with the text written, and \<open>git.init()\<close>.
\<close>

datatype effect =
    ConsoleLog console_message
  | ConsoleError console_message
  | ConsoleWarn console_message
  | ExecSync string "string option"
  | PromptList string "string list"
  | PromptInput string string
  | GitClone "string option" string
  | RemoveSync string
  | WriteJsonSync string string
  | GitInit string

subsection \<open>The file system, the world and the environment\<close>

datatype node = Dir | File string

type_synonym filesystem = "string \<Rightarrow> node option"

datatype reply = Answer string | Sigint | Rejects js_error

record world =
  files :: filesystem
  events :: "effect list"
  replies :: "reply list"

record options =
  skipInstall :: bool
  gitInit :: bool
  yes :: bool

datatype commander = Parsed options | CommanderExit nat

text \<open>
  What the script cannot decide itself: the working directory, whether \<open>git\<close> and
  \<open>npm\<close> answer their version command, what commander makes of \<open>process.argv\<close>,
  what \<open>JSON.parse\<close> makes of a text (the message of its \<open>SyntaxError\<close>, or the
  document), and what the external tools do. An external tool is given the file
  system and returns its error message, if it failed, and the file system it leaves
  behind.
\<close>

record environment =
  process_cwd :: string
  git_version_ok :: bool
  npm_version_ok :: bool
  program_parse :: commander
  JSON_parse :: "string \<Rightarrow> string + json"
  git_clone :: "string option \<Rightarrow> string \<Rightarrow> filesystem \<Rightarrow> string option \<times> filesystem"
  npm_install :: "string \<Rightarrow> filesystem \<Rightarrow> string option \<times> filesystem"
  git_init :: "string \<Rightarrow> filesystem \<Rightarrow> string option \<times> filesystem"

text \<open>
  The result of a step: it went through with a value, the process exited with a code,
  an exception is on its way up, or the process waits for input that never comes.
\<close>

datatype 'a step =
    Next 'a world
  | Exited nat world
  | Thrown js_error world
  | Blocked world

fun world_of :: "'a step \<Rightarrow> world" where
  "world_of (Next _ w) = w"
| "world_of (Exited _ w) = w"
| "world_of (Thrown _ w) = w"
| "world_of (Blocked w) = w"

fun and_then :: "'a step \<Rightarrow> ('a \<Rightarrow> world \<Rightarrow> 'b step) \<Rightarrow> 'b step" where
  "and_then (Next x w) f = f x w"
| "and_then (Exited c w) f = Exited c w"
| "and_then (Thrown e w) f = Thrown e w"
| "and_then (Blocked w) f = Blocked w"

definition emit :: "effect \<Rightarrow> world \<Rightarrow> world" where
  "emit e w = w\<lparr>events := events w @ [e]\<rparr>"

definition existsSync :: "filesystem \<Rightarrow> string \<Rightarrow> bool" where
  "existsSync fs p = (fs p \<noteq> None)"

text \<open>\<open>fs.removeSync(dir)\<close>: the directory and everything below it are gone.\<close>

definition removeSync :: "filesystem \<Rightarrow> string \<Rightarrow> filesystem" where
  "removeSync fs d = (\<lambda>p. if p = d \<or> prefix (d @ [sep]) p then None else fs p)"

text \<open>
  \<open>fs.readJsonSync(file)\<close>: reading a directory fails with \<open>EISDIR\<close>, a text that
  \<open>JSON.parse\<close> rejects raises its \<open>SyntaxError\<close>.
\<close>

definition readJsonSync :: "environment \<Rightarrow> filesystem \<Rightarrow> string \<Rightarrow> js_error + json" where
  "readJsonSync env fs p =
     (case fs p of
        None \<Rightarrow> Inl (SystemError ''ENOENT: no such file or directory, open'')
      | Some Dir \<Rightarrow> Inl (SystemError ''EISDIR: illegal operation on a directory, read'')
      | Some (File text) \<Rightarrow>
          (case JSON_parse env text of
             Inl msg \<Rightarrow> Inl (SyntaxError msg)
           | Inr doc \<Rightarrow> Inr doc))"

subsection \<open>The prompt primitives (inquirer)\<close>

text \<open>
  A prompt waits for the user. The replies still to come are in the world: an answer
  that the prompt accepts resolves it, one it does not accept is asked for again, an
  interrupt runs the handler installed by \<open>process.on('SIGINT')\<close> (a goodbye and
  \<open>process.exit(0)\<close>), and a failure of the prompt rejects the promise. When no reply
  is left the process waits for ever. The model lets an interrupt arrive only while a
  prompt is waiting, not while an external tool runs.
\<close>

fun prompt_loop :: "(string \<Rightarrow> string option) \<Rightarrow> reply list \<Rightarrow> world \<Rightarrow> string step" where
  "prompt_loop accept [] w = Blocked (w\<lparr>replies := []\<rparr>)"
| "prompt_loop accept (Answer s # rs) w =
     (case accept s of
        Some v \<Rightarrow> Next v (w\<lparr>replies := rs\<rparr>)
      | None \<Rightarrow> prompt_loop accept rs w)"
| "prompt_loop accept (Sigint # rs) w =
     Exited 0 (emit (ConsoleLog SigintGoodbye) (w\<lparr>replies := rs\<rparr>))"
| "prompt_loop accept (Rejects e # rs) w = Thrown e (w\<lparr>replies := rs\<rparr>)"

text \<open>\<open>type: 'list'\<close>: the answer is one of the choices.\<close>

definition prompt_list :: "string \<Rightarrow> string list \<Rightarrow> world \<Rightarrow> string step" where
  "prompt_list msg choices w =
     prompt_loop (\<lambda>s. if s \<in> set choices then Some s else None) (replies w)
       (emit (PromptList msg choices) w)"

text \<open>
  \<open>type: 'input'\<close>: an empty line stands for the default, and the answer has to pass
  \<open>validate\<close>, which returns \<open>None\<close> for \<open>true\<close> and the complaint otherwise.
\<close>

definition prompt_input ::
  "string \<Rightarrow> string \<Rightarrow> (string \<Rightarrow> string option) \<Rightarrow> world \<Rightarrow> string step" where
  "prompt_input msg dflt validate w =
     prompt_loop
       (\<lambda>s. let v = (if s = [] then dflt else s)
            in if validate v = None then Some v else None)
       (replies w) (emit (PromptInput msg dflt) w)"

text \<open>\<open>haystack.includes(needle)\<close>.\<close>

fun string_includes :: "string \<Rightarrow> string \<Rightarrow> bool" where
  "string_includes [] needle = (needle = [])"
| "string_includes (c # cs) needle = (prefix needle (c # cs) \<or> string_includes cs needle)"

subsection \<open>The steps of \<open>run\<close>\<close>

text \<open>
  The inner functions of \<open>run\<close>, each with the world it starts in. A \<open>try\<close> around an
  external tool becomes a case on the tool's answer; its \<open>catch\<close> prints the error and
  calls \<open>process.exit(1)\<close>.
\<close>

definition checkGitInstalled :: "environment \<Rightarrow> world \<Rightarrow> unit step" where
  "checkGitInstalled env w =
     (let w1 = emit (ExecSync ''git --version'' None) w
      in if git_version_ok env then Next () w1
         else Exited 1 (emit (ConsoleError GitNotInstalled) w1))"

definition checkNpmInstalled :: "environment \<Rightarrow> world \<Rightarrow> unit step" where
  "checkNpmInstalled env w =
     (let w1 = emit (ExecSync ''npm --version'' None) w
      in if npm_version_ok env then Next () w1
         else Exited 1 (emit (ConsoleError NpmNotInstalled) w1))"

definition cloneTemplate :: "environment \<Rightarrow> string option \<Rightarrow> string \<Rightarrow> world \<Rightarrow> unit step" where
  "cloneTemplate env templateUrl projectDir w =
     (let w1 = emit (GitClone templateUrl projectDir) (emit (ConsoleLog (CloningFrom templateUrl)) w)
      in case git_clone env templateUrl projectDir (files w1) of
           (None, fs') \<Rightarrow> Next () (emit (ConsoleLog (ClonedTo projectDir)) (w1\<lparr>files := fs'\<rparr>))
         | (Some msg, fs') \<Rightarrow> Exited 1 (emit (ConsoleError (CloneError msg)) (w1\<lparr>files := fs'\<rparr>)))"

definition installInDir :: "environment \<Rightarrow> string \<Rightarrow> world \<Rightarrow> unit step" where
  "installInDir env dir w =
     (let packageJsonPath = path_join dir ''package.json''
      in if existsSync (files w) packageJsonPath then
           (let w1 = emit (ExecSync ''npm install'' (Some dir)) (emit (ConsoleLog (InstallingIn dir)) w)
            in case npm_install env dir (files w1) of
                 (None, fs') \<Rightarrow> Next () (emit (ConsoleLog (InstalledIn dir)) (w1\<lparr>files := fs'\<rparr>))
               | (Some msg, fs') \<Rightarrow>
                   Exited 1 (emit (ConsoleError (InstallError dir msg)) (w1\<lparr>files := fs'\<rparr>)))
         else Next () (emit (ConsoleWarn (NoPackageJson dir)) w))"

definition installDependencies :: "environment \<Rightarrow> string \<Rightarrow> world \<Rightarrow> unit step" where
  "installDependencies env projectDir w =
     and_then (installInDir env projectDir w) (\<lambda>_ w1.
       (let frontendDir = path_join projectDir ''frontend'';
            backendDir = path_join projectDir ''backend''
        in and_then
             (if existsSync (files w1) frontendDir then installInDir env frontendDir w1
              else Next () w1)
             (\<lambda>_ w2.
                if existsSync (files w2) backendDir then installInDir env backendDir w2
                else Next () w2)))"

text \<open>
  \<open>packageJson[key] = value\<close> on whatever \<open>readJsonSync\<close> returned. Only an object
  takes the property. On \<open>null\<close> the assignment raises a \<open>TypeError\<close>; on a number, string
  or boolean it is dropped (the script is not in strict mode); on an array it sets a
  property that is not an element, which \<open>JSON.stringify\<close> does not print. The keys
  assigned are \<open>name\<close> and \<open>author\<close>.
\<close>

fun assign :: "json \<Rightarrow> string \<Rightarrow> json \<Rightarrow> js_error + json" where
  "assign (JObject kvs) key v = Inr (JObject (set_property kvs key v))"
| "assign JNull key v =
     Inl (TypeError (''Cannot set properties of null (setting '' @ [CHR 0x27] @ key
                     @ [CHR 0x27] @ '')''))"
| "assign doc key v = Inr doc"

fun assign_all :: "json \<Rightarrow> (string \<times> json) list \<Rightarrow> js_error + json" where
  "assign_all doc [] = Inr doc"
| "assign_all doc ((key, v) # rest) =
     (case assign doc key v of
        Inl e \<Rightarrow> Inl e
      | Inr doc' \<Rightarrow> assign_all doc' rest)"

definition customizePackageJson ::
  "environment \<Rightarrow> string \<Rightarrow> (string \<times> json) list \<Rightarrow> world \<Rightarrow> unit step" where
  "customizePackageJson env projectDir customizations w =
     (let packageJsonPath = path_join projectDir ''package.json''
      in if existsSync (files w) packageJsonPath then
           (case readJsonSync env (files w) packageJsonPath of
              Inl e \<Rightarrow> Thrown e w
            | Inr packageJson \<Rightarrow>
                (case assign_all packageJson customizations of
                   Inl e \<Rightarrow> Thrown e w
                 | Inr packageJson' \<Rightarrow>
                     (let text = JSON_stringify2 packageJson';
                          written = text @ newline
                      in Next ()
                           (emit (ConsoleLog (ModifiedPackageJson text))
                              (emit (WriteJsonSync packageJsonPath written)
                                 (w\<lparr>files := (files w)(packageJsonPath \<mapsto> File written)\<rparr>))))))
         else Next () w)"

text \<open>Lines 193 to 195: a property only for a name that is not empty.\<close>

definition customizations_of :: "string \<Rightarrow> string \<Rightarrow> (string \<times> json) list" where
  "customizations_of projectName authorName =
     (if projectName \<noteq> [] then [(''name'', JString projectName)] else [])
     @ (if authorName \<noteq> [] then [(''author'', JString authorName)] else [])"

subsection \<open>The interaction flow\<close>

record request =
  template :: string
  projectName :: string
  authorName :: string

definition validate_projectName :: "string \<Rightarrow> string option" where
  "validate_projectName input =
     (if length input > 0 then None else Some ''Project name cannot be empty.'')"

definition ask_all :: "world \<Rightarrow> request step" where
  "ask_all w =
     and_then
       (prompt_list ''Which template would you like to use?'' (Object_keys templates) w)
       (\<lambda>templateChoice w1.
          and_then
            (prompt_input ''Enter a name for your project:'' ''bsv-app'' validate_projectName w1)
            (\<lambda>projectNameInput w2.
               and_then
                 (prompt_input ''Enter the author name:'' [] (\<lambda>_. None) w2)
                 (\<lambda>authorNameInput w3.
                    Next \<lparr>template = templateChoice, projectName = projectNameInput,
                          authorName = authorNameInput\<rparr> w3)))"

text \<open>The \<open>catch\<close> of lines 168 to 177: whatever was thrown, the process exits with 0.\<close>

definition prompt_catch_report :: "js_error \<Rightarrow> effect" where
  "prompt_catch_report error =
     (if isTtyError error then ConsoleError PromptNotRendered
      else if string_includes (message error) ''User force closed the prompt'' then
        ConsoleLog Goodbye
      else ConsoleError (UnexpectedError (message error)))"

definition prompt_catch :: "js_error \<Rightarrow> world \<Rightarrow> request step" where
  "prompt_catch error w = Exited 0 (emit (prompt_catch_report error) w)"

definition interaction :: "options \<Rightarrow> world \<Rightarrow> request step" where
  "interaction opts w =
     (if yes opts then
        Next \<lparr>template = ''meter'', projectName = ''bsv-app'', authorName = []\<rparr> w
      else
        (case ask_all w of
           Thrown error w' \<Rightarrow> prompt_catch error w'
         | other \<Rightarrow> other))"

subsection \<open>The materializer and the whole run\<close>

definition stripHistory :: "string \<Rightarrow> world \<Rightarrow> world" where
  "stripHistory projectDir w =
     (let gitDir = path_join projectDir ''.git''
      in if existsSync (files w) gitDir then
           emit (RemoveSync gitDir) (w\<lparr>files := removeSync (files w) gitDir\<rparr>)
         else w)"

definition initRepository :: "environment \<Rightarrow> string \<Rightarrow> world \<Rightarrow> unit step" where
  "initRepository env projectDir w =
     (let w1 = emit (GitInit projectDir) (emit (ConsoleLog InitializingGit) w)
      in case git_init env projectDir (files w1) of
           (None, fs') \<Rightarrow> Next () (w1\<lparr>files := fs'\<rparr>)
         | (Some msg, fs') \<Rightarrow> Exited 1 (emit (ConsoleError (GitInitError msg)) (w1\<lparr>files := fs'\<rparr>)))"

definition resolve_target :: "environment \<Rightarrow> string \<Rightarrow> string" where
  "resolve_target env name = path_resolve (process_cwd env) [process_cwd env, name]"

text \<open>
  Lines 188 to 216 of \<open>run\<close>, what follows a successful clone: the history strip, the
  manifest, the installs, the new repository and the closing messages.
\<close>

definition after_clone :: "environment \<Rightarrow> options \<Rightarrow> request \<Rightarrow> string \<Rightarrow> world \<Rightarrow> unit step" where
  "after_clone env opts req projectDir w1 =
     and_then
       (customizePackageJson env projectDir
          (customizations_of (projectName req) (authorName req))
          (stripHistory projectDir w1)) (\<lambda>_ w2.
     and_then
       (if \<not> skipInstall opts then installDependencies env projectDir w2
        else Next () w2) (\<lambda>_ w3.
     and_then
       (if gitInit opts then initRepository env projectDir w3 else Next () w3) (\<lambda>_ w4.
     Next ()
       (emit (ConsoleLog NpmStartHint)
          (emit (ConsoleLog (CdHint (projectName req)))
             (emit (ConsoleLog AllDone) w4))))))"

text \<open>Lines 179 to 186: the target check and the clone.\<close>

definition materialize :: "environment \<Rightarrow> options \<Rightarrow> request \<Rightarrow> world \<Rightarrow> unit step" where
  "materialize env opts req w =
     (let projectDir = resolve_target env (projectName req)
      in if existsSync (files w) projectDir then
           Exited 1 (emit (ConsoleError (DirectoryExists (projectName req))) w)
         else
           and_then (cloneTemplate env (templates_lookup (template req)) projectDir w)
             (\<lambda>_ w1. after_clone env opts req projectDir w1))"

definition run :: "environment \<Rightarrow> world \<Rightarrow> unit step" where
  "run env w =
     and_then (checkGitInstalled env (emit (ConsoleLog Tagline) (emit (ConsoleLog Banner) w)))
       (\<lambda>_ w1.
     and_then (checkNpmInstalled env w1) (\<lambda>_ w2.
       (case program_parse env of
          CommanderExit code \<Rightarrow> Exited code w2
        | Parsed opts \<Rightarrow>
            and_then (interaction opts w2) (\<lambda>req w3. materialize env opts req w3))))"

text \<open>
  The script itself: \<open>run().catch(...)\<close>. An exception that leaves \<open>run\<close> is printed
  and the process exits with 1; when \<open>run\<close> returns, the process ends with code 0.
\<close>

definition main :: "environment \<Rightarrow> filesystem \<Rightarrow> reply list \<Rightarrow> unit step" where
  "main env fs rs =
     (case run env \<lparr>files = fs, events = [], replies = rs\<rparr> of
        Next _ w \<Rightarrow> Exited 0 w
      | Thrown error w \<Rightarrow> Exited 1 (emit (ConsoleError (UncaughtError error)) w)
      | other \<Rightarrow> other)"

text \<open>
  The world in which the interaction flow starts when both version probes succeed: the
  banner, the tagline and the two probes are in the log, nothing else has happened.
\<close>

definition after_preflight :: "filesystem \<Rightarrow> reply list \<Rightarrow> world" where
  "after_preflight fs rs =
     \<lparr>files = fs,
      events = [ConsoleLog Banner, ConsoleLog Tagline,
                ExecSync ''git --version'' None, ExecSync ''npm --version'' None],
      replies = rs\<rparr>"

subsection \<open>Kinds of effects\<close>

text \<open>
  The effects that change the file system are the clone, the removal of \<open>.git\<close>, the
  rewriting of the manifest, \<open>npm install\<close> and \<open>git init\<close>; the version probes and the
  console do not.
\<close>

datatype kind = KConsole | KProbe | KPrompt | KClone | KRemove | KWrite | KInstall | KInit

fun kind_of :: "effect \<Rightarrow> kind" where
  "kind_of (ConsoleLog _) = KConsole"
| "kind_of (ConsoleError _) = KConsole"
| "kind_of (ConsoleWarn _) = KConsole"
| "kind_of (ExecSync cmd _) = (if cmd = ''npm install'' then KInstall else KProbe)"
| "kind_of (PromptList _ _) = KPrompt"
| "kind_of (PromptInput _ _) = KPrompt"
| "kind_of (GitClone _ _) = KClone"
| "kind_of (RemoveSync _) = KRemove"
| "kind_of (WriteJsonSync _ _) = KWrite"
| "kind_of (GitInit _) = KInit"

definition mutating :: "effect \<Rightarrow> bool" where
  "mutating e = (kind_of e \<in> {KClone, KRemove, KWrite, KInstall, KInit})"

text \<open>\<open>emits K w w'\<close>: \<open>w'\<close> has the events of \<open>w\<close> and after them only events of the kinds \<open>K\<close>.\<close>

definition emits :: "kind set \<Rightarrow> world \<Rightarrow> world \<Rightarrow> bool" where
  "emits K w w' = (\<exists>new. events w' = events w @ new \<and> kind_of ` set new \<subseteq> K)"

subsection \<open>A sample environment\<close>

text \<open>
  A working directory \<open>/w\<close>, both tools present, a clone that delivers a manifest, a
  \<open>.git\<close> directory, a \<open>frontend\<close> with a manifest and a \<open>backend\<close> without one, an
  install that succeeds and leaves a \<open>node_modules\<close> directory, and a \<open>JSON.parse\<close>
  that knows one document.
\<close>

definition sample_manifest :: string where
  "sample_manifest = ''{\"name\":\"x\",\"version\":\"1.0.0\"}''"

definition sample_clone :: "string \<Rightarrow> filesystem \<Rightarrow> filesystem" where
  "sample_clone d fs =
     fs(d \<mapsto> Dir,
        d @ ''/package.json'' \<mapsto> File sample_manifest,
        d @ ''/.git'' \<mapsto> Dir,
        d @ ''/.git/HEAD'' \<mapsto> File ''ref: refs/heads/main'',
        d @ ''/frontend'' \<mapsto> Dir,
        d @ ''/frontend/package.json'' \<mapsto> File sample_manifest,
        d @ ''/backend'' \<mapsto> Dir)"

definition sample_env :: "options \<Rightarrow> environment" where
  "sample_env opts =
     \<lparr>process_cwd = ''/w'',
      git_version_ok = True,
      npm_version_ok = True,
      program_parse = Parsed opts,
      JSON_parse =
        (\<lambda>t. if t = sample_manifest
             then Inr (JObject [(''name'', JString ''x''), (''version'', JString ''1.0.0'')])
             else Inl ''Unexpected token''),
      git_clone = (\<lambda>url d fs. (None, sample_clone d fs)),
      npm_install = (\<lambda>d fs. (None, fs(d @ ''/node_modules'' \<mapsto> Dir))),
      git_init = (\<lambda>d fs. (None, fs(d @ ''/.git'' \<mapsto> Dir)))\<rparr>"

definition empty_fs :: filesystem where
  "empty_fs = (\<lambda>_. None)"

section \<open>Properties\<close>

subsection \<open>The template registry\<close>

text \<open>
  C7. Every label of the registry has an entry: looking it up gives a URL, that URL is
  the one the registry pairs with the label, and no other URL is paired with it.
\<close>

theorem registry_lookup_total_exact:
  "label \<in> set (Object_keys templates) \<Longrightarrow>
     \<exists>url. templates_lookup label = Some url \<and> (label, url) \<in> set templates
       \<and> (\<forall>url'. (label, url') \<in> set templates \<longrightarrow> url' = url)"
  by (auto simp: templates_def Object_keys_def templates_lookup_def)

theorem registry_lookup_total_exact_witness:
  "''Meter - A feature-packed starting point'' \<in> set (Object_keys templates)
   \<and> templates_lookup ''Meter - A feature-packed starting point''
       = Some ''https://github.com/p2ppsr/meter.git''"
  using registry_lookup_total_exact [of "''Meter - A feature-packed starting point''"]
  by (simp add: templates_def Object_keys_def)

subsection \<open>Non-interactive defaults\<close>

text \<open>
  C1. With \<open>--yes\<close> and no other flag the interaction flow returns its request at once,
  in an unchanged world (no prompt is invoked): the project name is \<open>bsv-app\<close>, the
  author is empty and the template is the identifier \<open>meter\<close>. That identifier is not a
  label of the registry, and looking it up gives nothing.
\<close>

theorem yes_request_template_not_in_registry:
  "interaction \<lparr>skipInstall = False, gitInit = False, yes = True\<rparr> w
     = Next \<lparr>template = ''meter'', projectName = ''bsv-app'', authorName = []\<rparr> w
   \<and> ''meter'' \<notin> set (Object_keys templates)
   \<and> templates_lookup ''meter'' = None"
  by (simp add: interaction_def templates_def Object_keys_def templates_lookup_def)

subsection \<open>The target check\<close>

text \<open>
  C3. When the resolved target directory exists, the materializer exits with code 1
  after printing the collision message: the file system is the one it started with, the
  message is the only new event, and so no clone, removal, manifest rewrite, install or
  init has been added to the log.
\<close>

theorem existing_target_no_mutation:
  "existsSync (files w) (resolve_target env (projectName req)) \<Longrightarrow>
     materialize env opts req w
       = Exited 1 (w\<lparr>events := events w @ [ConsoleError (DirectoryExists (projectName req))]\<rparr>)
     \<and> \<not> mutating (ConsoleError (DirectoryExists (projectName req)))"
  by (simp add: materialize_def emit_def mutating_def)

theorem existing_target_no_mutation_witness:
  "existsSync (empty_fs(''/w/bsv-app'' \<mapsto> Dir))
     (resolve_target (sample_env \<lparr>skipInstall = False, gitInit = True, yes = True\<rparr>) ''bsv-app'')
   \<and> materialize (sample_env \<lparr>skipInstall = False, gitInit = True, yes = True\<rparr>)
        \<lparr>skipInstall = False, gitInit = True, yes = True\<rparr>
        \<lparr>template = ''meter'', projectName = ''bsv-app'', authorName = []\<rparr>
        \<lparr>files = empty_fs(''/w/bsv-app'' \<mapsto> Dir), events = [], replies = []\<rparr>
      = Exited 1
          \<lparr>files = empty_fs(''/w/bsv-app'' \<mapsto> Dir),
           events = [ConsoleError (DirectoryExists ''bsv-app'')], replies = []\<rparr>"
proof -
  have target: "resolve_target (sample_env \<lparr>skipInstall = False, gitInit = True, yes = True\<rparr>)
      ''bsv-app'' = ''/w/bsv-app''"
    by (simp add: resolve_target_def sample_env_def path_resolve_def isAbsolute_def sep_def
        normalizeString_def
      normalize_segments_def normalize_step_def)
  have ex: "existsSync (empty_fs(''/w/bsv-app'' \<mapsto> Dir))
     (resolve_target (sample_env \<lparr>skipInstall = False, gitInit = True, yes = True\<rparr>) ''bsv-app'')"
    by (simp add: target existsSync_def)
  from existing_target_no_mutation
         [of "\<lparr>files = empty_fs(''/w/bsv-app'' \<mapsto> Dir), events = [], replies = []\<rparr>"
             "sample_env \<lparr>skipInstall = False, gitInit = True, yes = True\<rparr>"
             "\<lparr>template = ''meter'', projectName = ''bsv-app'', authorName = []\<rparr>"
             "\<lparr>skipInstall = False, gitInit = True, yes = True\<rparr>"]
  show ?thesis using ex by simp
qed

subsection \<open>Which effects a step can add\<close>

text \<open>
  Each step only appends to the log, and only effects of its own kinds. The lemmas are
  stated for any set of kinds that contains those of the step, so that they compose.
\<close>

lemma emits_refl: "emits K w w"
  by (simp add: emits_def)

lemma emits_emit: "kind_of e \<in> K \<Longrightarrow> emits K w w' \<Longrightarrow> emits K w (emit e w')"
  by (auto simp: emits_def emit_def)

lemma emits_files_update: "emits K w (w'\<lparr>files := f\<rparr>) = emits K w w'"
  by (simp add: emits_def)

lemma emits_replies_update: "emits K w (w'\<lparr>replies := r\<rparr>) = emits K w w'"
  by (simp add: emits_def)

lemma emits_trans: "emits K w w' \<Longrightarrow> emits K w' w'' \<Longrightarrow> emits K w w''"
  by (auto simp: emits_def image_subset_iff)

lemma emits_and_then:
  "emits K w (world_of m) \<Longrightarrow> (\<And>x w1. emits K w1 (world_of (f x w1)))
     \<Longrightarrow> emits K w (world_of (and_then m f))"
  by (cases m) (auto intro: emits_trans)

lemma emits_prompt_loop:
  "KConsole \<in> K \<Longrightarrow> emits K w0 w \<Longrightarrow> emits K w0 (world_of (prompt_loop accept rs w))"
  by (induction accept rs w rule: prompt_loop.induct)
     (auto simp: emits_replies_update intro: emits_emit split: option.splits)

lemma emits_ask_all:
  "KConsole \<in> K \<Longrightarrow> KPrompt \<in> K \<Longrightarrow> emits K w (world_of (ask_all w))"
  unfolding ask_all_def prompt_list_def prompt_input_def
  by (intro emits_and_then emits_prompt_loop emits_emit) (simp_all add: emits_refl)

lemma emits_interaction:
  "KConsole \<in> K \<Longrightarrow> KPrompt \<in> K \<Longrightarrow> emits K w (world_of (interaction opts w))"
  using emits_ask_all [of K w]
  by (auto simp: interaction_def prompt_catch_def prompt_catch_report_def emits_refl
      intro: emits_emit split: step.splits)

lemma emits_checkGit:
  "KConsole \<in> K \<Longrightarrow> KProbe \<in> K \<Longrightarrow> emits K w (world_of (checkGitInstalled env w))"
  by (auto simp: checkGitInstalled_def Let_def intro!: emits_emit emits_refl)

lemma emits_checkNpm:
  "KConsole \<in> K \<Longrightarrow> KProbe \<in> K \<Longrightarrow> emits K w (world_of (checkNpmInstalled env w))"
  by (auto simp: checkNpmInstalled_def Let_def intro!: emits_emit emits_refl)

lemma emits_cloneTemplate:
  "KConsole \<in> K \<Longrightarrow> KClone \<in> K \<Longrightarrow> emits K w (world_of (cloneTemplate env url d w))"
  by (auto simp: cloneTemplate_def Let_def emits_files_update intro!: emits_emit emits_refl
      split: prod.splits option.splits)

lemma emits_stripHistory:
  "KRemove \<in> K \<Longrightarrow> emits K w (stripHistory d w)"
  by (auto simp: stripHistory_def Let_def emits_files_update intro!: emits_emit emits_refl)

lemma emits_customize:
  "KConsole \<in> K \<Longrightarrow> KWrite \<in> K \<Longrightarrow> emits K w (world_of (customizePackageJson env d cs w))"
  by (auto simp: customizePackageJson_def Let_def emits_files_update intro!: emits_emit emits_refl
      split: sum.splits)

lemma emits_installInDir:
  "KConsole \<in> K \<Longrightarrow> KInstall \<in> K \<Longrightarrow> emits K w (world_of (installInDir env d w))"
  by (auto simp: installInDir_def Let_def emits_files_update intro!: emits_emit emits_refl
      split: prod.splits option.splits)

lemma emits_installDependencies:
  "KConsole \<in> K \<Longrightarrow> KInstall \<in> K \<Longrightarrow> emits K w (world_of (installDependencies env d w))"
  unfolding installDependencies_def Let_def
  by (intro emits_and_then) (auto intro: emits_installInDir emits_refl)

lemma emits_initRepository:
  "KConsole \<in> K \<Longrightarrow> KInit \<in> K \<Longrightarrow> emits K w (world_of (initRepository env d w))"
  by (auto simp: initRepository_def Let_def emits_files_update intro!: emits_emit emits_refl
      split: prod.splits option.splits)

lemma emits_after_clone:
  assumes "KConsole \<in> K" "KRemove \<in> K" "KWrite \<in> K" "KInit \<in> K"
    and "\<not> skipInstall opts \<Longrightarrow> KInstall \<in> K"
  shows "emits K w (world_of (after_clone env opts req d w))"
  unfolding after_clone_def
  apply (intro emits_and_then)
  apply (rule emits_trans [OF emits_stripHistory emits_customize])
  using assms apply (auto intro!: emits_installDependencies emits_initRepository emits_emit emits_refl)
  done

lemma emits_materialize:
  assumes "KConsole \<in> K" "KClone \<in> K" "KRemove \<in> K" "KWrite \<in> K" "KInit \<in> K"
    and "\<not> skipInstall opts \<Longrightarrow> KInstall \<in> K"
  shows "emits K w (world_of (materialize env opts req w))"
  unfolding materialize_def Let_def
  using assms
  by (auto intro!: emits_and_then emits_cloneTemplate emits_after_clone emits_emit emits_refl)

lemma emits_run:
  assumes "KConsole \<in> K" "KProbe \<in> K" "KPrompt \<in> K" "KClone \<in> K" "KRemove \<in> K"
    "KWrite \<in> K" "KInit \<in> K"
    and "\<And>opts. program_parse env = Parsed opts \<Longrightarrow> \<not> skipInstall opts \<Longrightarrow> KInstall \<in> K"
  shows "emits K w (world_of (run env w))"
  unfolding run_def
  apply (intro emits_and_then)
  apply (rule emits_trans [OF _ emits_checkGit])
  using assms apply (auto intro!: emits_emit emits_refl emits_checkNpm emits_and_then emits_interaction emits_materialize split: commander.splits)
  done

lemma emits_main:
  assumes "KConsole \<in> K" "KProbe \<in> K" "KPrompt \<in> K" "KClone \<in> K" "KRemove \<in> K"
    "KWrite \<in> K" "KInit \<in> K"
    and "\<And>opts. program_parse env = Parsed opts \<Longrightarrow> \<not> skipInstall opts \<Longrightarrow> KInstall \<in> K"
  shows "emits K \<lparr>files = fs, events = [], replies = rs\<rparr> (world_of (main env fs rs))"
proof -
  have "emits K \<lparr>files = fs, events = [], replies = rs\<rparr>
          (world_of (run env \<lparr>files = fs, events = [], replies = rs\<rparr>))"
    by (rule emits_run) (use assms in auto)
  then show ?thesis
    using assms(1) by (auto simp: main_def intro: emits_emit split: step.splits)
qed

lemma emits_filter_kind:
  "emits K w w' \<Longrightarrow> k \<notin> K \<Longrightarrow>
     filter (\<lambda>e. kind_of e = k) (events w') = filter (\<lambda>e. kind_of e = k) (events w)"
  by (auto simp: emits_def image_subset_iff filter_empty_conv)

lemma emits_main_after_run:
  "emits {KConsole} (world_of (run env \<lparr>files = fs, events = [], replies = rs\<rparr>))
     (world_of (main env fs rs))"
  by (auto simp: main_def emits_refl intro!: emits_emit split: step.splits)

lemma clone_events_cloneTemplate:
  "filter (\<lambda>e. kind_of e = KClone) (events (world_of (cloneTemplate env url d w)))
     = filter (\<lambda>e. kind_of e = KClone) (events w) @ [GitClone url d]"
  by (auto simp: cloneTemplate_def Let_def emit_def split: prod.splits option.splits)

lemma clone_events_materialize:
  assumes "\<not> existsSync (files w) (resolve_target env (projectName req))"
  shows "filter (\<lambda>e. kind_of e = KClone) (events (world_of (materialize env opts req w)))
     = filter (\<lambda>e. kind_of e = KClone) (events w)
       @ [GitClone (templates_lookup (template req)) (resolve_target env (projectName req))]"
proof -
  let ?d = "resolve_target env (projectName req)"
  let ?m = "cloneTemplate env (templates_lookup (template req)) ?d w"
  have m: "materialize env opts req w = and_then ?m (\<lambda>_ w1. after_clone env opts req ?d w1)"
    using assms by (simp add: materialize_def Let_def)
  have rest: "filter (\<lambda>e. kind_of e = KClone)
        (events (world_of (and_then ?m (\<lambda>_ w1. after_clone env opts req ?d w1))))
      = filter (\<lambda>e. kind_of e = KClone) (events (world_of ?m))"
  proof (cases ?m)
    case (Next x w1)
    have "emits (- {KClone}) w1 (world_of (after_clone env opts req ?d w1))"
      by (rule emits_after_clone) auto
    then show ?thesis using Next by (simp add: emits_filter_kind)
  qed simp_all
  show ?thesis
    unfolding m rest by (rule clone_events_cloneTemplate)
qed

lemma sample_target:
  "resolve_target (sample_env opts) ''bsv-app'' = ''/w/bsv-app''"
  by (simp add: resolve_target_def sample_env_def path_resolve_def isAbsolute_def sep_def
      normalizeString_def
      normalize_segments_def normalize_step_def)

subsection \<open>Skipping the installs\<close>

text \<open>
  C8. When commander reports \<open>skipInstall\<close>, the log of the whole run holds no
  \<open>npm install\<close>, whatever the file system, the replies and the external tools are: not
  for the root, not for \<open>frontend\<close>, not for \<open>backend\<close>.
\<close>

theorem skip_install_runs_no_install:
  "program_parse env = Parsed opts \<Longrightarrow> skipInstall opts \<Longrightarrow>
     KInstall \<notin> kind_of ` set (events (world_of (main env fs rs)))"
proof -
  assume p: "program_parse env = Parsed opts" and s: "skipInstall opts"
  have "emits (- {KInstall}) \<lparr>files = fs, events = [], replies = rs\<rparr> (world_of (main env fs rs))"
    by (rule emits_main) (use p s in auto)
  then show ?thesis by (auto simp: emits_def)
qed


theorem skip_install_runs_no_install_witness:
  "program_parse (sample_env \<lparr>skipInstall = True, gitInit = False, yes = True\<rparr>)
     = Parsed \<lparr>skipInstall = True, gitInit = False, yes = True\<rparr>
   \<and> skipInstall \<lparr>skipInstall = True, gitInit = False, yes = True\<rparr>
   \<and> KInstall \<notin> kind_of ` set (events (world_of
        (main (sample_env \<lparr>skipInstall = True, gitInit = False, yes = True\<rparr>) empty_fs [])))"
  using skip_install_runs_no_install
    [of "sample_env \<lparr>skipInstall = True, gitInit = False, yes = True\<rparr>"
        "\<lparr>skipInstall = True, gitInit = False, yes = True\<rparr>" empty_fs "[]"]
  by (simp add: sample_env_def)

subsection \<open>The clone in non-interactive mode\<close>

text \<open>
  C9. In non-interactive mode the request's template is \<open>meter\<close>, which is not a key
  of the registry; its lookup gives \<open>undefined\<close>. When both tools are present and the
  target \<open>bsv-app\<close> is free, the run invokes the clone exactly once, and with that
  undefined URL.
\<close>

theorem yes_clone_with_undefined_url:
  assumes "git_version_ok env" and "npm_version_ok env"
    and "program_parse env = Parsed opts" and "yes opts"
    and "\<not> existsSync fs (resolve_target env ''bsv-app'')"
  shows "''meter'' \<notin> set (Object_keys templates)
     \<and> templates_lookup ''meter'' = None
     \<and> filter (\<lambda>e. kind_of e = KClone) (events (world_of (main env fs rs)))
         = [GitClone None (resolve_target env ''bsv-app'')]"
proof -
  let ?w0 = "\<lparr>files = fs, events = [], replies = rs\<rparr>"
  let ?req = "\<lparr>template = ''meter'', projectName = ''bsv-app'', authorName = []\<rparr>"
  let ?w2 = "emit (ExecSync ''npm --version'' None) (emit (ExecSync ''git --version'' None)
      (emit (ConsoleLog Tagline) (emit (ConsoleLog Banner) ?w0)))"
  have lookup: "templates_lookup ''meter'' = None"
    by (simp add: templates_lookup_def templates_def)
  have r: "run env ?w0 = materialize env opts ?req ?w2"
    using assms(1-4)
    by (simp add: run_def checkGitInstalled_def checkNpmInstalled_def interaction_def Let_def)
  have "\<not> existsSync (files ?w2) (resolve_target env (projectName ?req))"
    using assms(5) by (simp add: emit_def)
  from clone_events_materialize [OF this, of opts]
  have "filter (\<lambda>e. kind_of e = KClone) (events (world_of (run env ?w0)))
      = [GitClone None (resolve_target env ''bsv-app'')]"
    by (simp add: r lookup emit_def)
  moreover have "filter (\<lambda>e. kind_of e = KClone) (events (world_of (main env fs rs)))
      = filter (\<lambda>e. kind_of e = KClone) (events (world_of (run env ?w0)))"
    by (rule emits_filter_kind [OF emits_main_after_run]) simp
  ultimately show ?thesis
    by (simp add: lookup Object_keys_def templates_def)
qed

theorem yes_clone_with_undefined_url_witness:
  "git_version_ok (sample_env \<lparr>skipInstall = False, gitInit = False, yes = True\<rparr>)
   \<and> npm_version_ok (sample_env \<lparr>skipInstall = False, gitInit = False, yes = True\<rparr>)
   \<and> program_parse (sample_env \<lparr>skipInstall = False, gitInit = False, yes = True\<rparr>)
       = Parsed \<lparr>skipInstall = False, gitInit = False, yes = True\<rparr>
   \<and> yes \<lparr>skipInstall = False, gitInit = False, yes = True\<rparr>
   \<and> \<not> existsSync empty_fs ''/w/bsv-app''
   \<and> filter (\<lambda>e. kind_of e = KClone) (events (world_of
        (main (sample_env \<lparr>skipInstall = False, gitInit = False, yes = True\<rparr>) empty_fs [])))
       = [GitClone None ''/w/bsv-app'']"
  using yes_clone_with_undefined_url
    [of "sample_env \<lparr>skipInstall = False, gitInit = False, yes = True\<rparr>"
        "\<lparr>skipInstall = False, gitInit = False, yes = True\<rparr>" empty_fs "[]"]
  by (simp add: sample_target) (simp add: sample_env_def existsSync_def empty_fs_def)

subsection \<open>Failures of the prompts\<close>

lemma run_after_preflight:
  "git_version_ok env \<Longrightarrow> npm_version_ok env \<Longrightarrow> program_parse env = Parsed opts \<Longrightarrow>
     run env \<lparr>files = fs, events = [], replies = rs\<rparr>
       = and_then (interaction opts (after_preflight fs rs))
           (\<lambda>req w3. materialize env opts req w3)"
  by (simp add: run_def checkGitInstalled_def checkNpmInstalled_def Let_def emit_def
      after_preflight_def)

lemma prompt_loop_Exited:
  "prompt_loop accept rs w = Exited c w' \<Longrightarrow>
     c = 0 \<and> (\<exists>pre. events w' = pre @ [ConsoleLog SigintGoodbye])"
  by (induction accept rs w rule: prompt_loop.induct)
     (auto simp: emit_def split: option.splits)

lemma and_then_Exited:
  "and_then m f = Exited c w' \<Longrightarrow>
     m = Exited c w' \<or> (\<exists>x w1. m = Next x w1 \<and> f x w1 = Exited c w')"
  by (cases m) auto

lemma ask_all_Exited:
  "ask_all w = Exited c w' \<Longrightarrow>
     c = 0 \<and> (\<exists>pre. events w' = pre @ [ConsoleLog SigintGoodbye])"
  unfolding ask_all_def prompt_list_def prompt_input_def
  by (auto dest!: and_then_Exited dest: prompt_loop_Exited)

text \<open>
  C5. In interactive mode, with both tools present, whatever error the prompt phase
  raises (the terminal cannot show the prompt, the user force-closed it, or anything
  else) is caught at line 168: the process prints the message chosen for the error and
  exits with code 0. An interrupt during a prompt runs the \<open>SIGINT\<close> handler, which
  prints its goodbye and exits with code 0 as well. No other exit code comes out of
  the prompt phase.
\<close>

theorem prompt_failures_exit_zero:
  assumes "git_version_ok env" and "npm_version_ok env"
    and "program_parse env = Parsed opts" and "\<not> yes opts"
  shows "(\<forall>error w'. ask_all (after_preflight fs rs) = Thrown error w' \<longrightarrow>
            kind_of (prompt_catch_report error) = KConsole
            \<and> main env fs rs = Exited 0 (emit (prompt_catch_report error) w'))
       \<and> (\<forall>code w'. ask_all (after_preflight fs rs) = Exited code w' \<longrightarrow>
            code = 0 \<and> main env fs rs = Exited 0 w'
            \<and> (\<exists>pre. events w' = pre @ [ConsoleLog SigintGoodbye]))"
proof (intro conjI allI impI)
  fix error w'
  assume t: "ask_all (after_preflight fs rs) = Thrown error w'"
  show "kind_of (prompt_catch_report error) = KConsole"
    by (simp add: prompt_catch_report_def)
  have "interaction opts (after_preflight fs rs) = prompt_catch error w'"
    using assms(4) t by (simp add: interaction_def)
  then show "main env fs rs = Exited 0 (emit (prompt_catch_report error) w')"
    by (simp add: main_def run_after_preflight [OF assms(1-3)] prompt_catch_def)
next
  fix code w'
  assume x: "ask_all (after_preflight fs rs) = Exited code w'"
  then have i: "interaction opts (after_preflight fs rs) = Exited code w'"
    using assms(4) by (simp add: interaction_def)
  show "code = 0" using ask_all_Exited [OF x] by simp
  show "\<exists>pre. events w' = pre @ [ConsoleLog SigintGoodbye]"
    using ask_all_Exited [OF x] by simp
  show "main env fs rs = Exited 0 w'"
    using ask_all_Exited [OF x] i by (simp add: main_def run_after_preflight [OF assms(1-3)])
qed


theorem prompt_failures_exit_zero_witness:
  "git_version_ok (sample_env \<lparr>skipInstall = False, gitInit = False, yes = False\<rparr>)
   \<and> npm_version_ok (sample_env \<lparr>skipInstall = False, gitInit = False, yes = False\<rparr>)
   \<and> program_parse (sample_env \<lparr>skipInstall = False, gitInit = False, yes = False\<rparr>)
       = Parsed \<lparr>skipInstall = False, gitInit = False, yes = False\<rparr>
   \<and> \<not> yes \<lparr>skipInstall = False, gitInit = False, yes = False\<rparr>
   \<and> main (sample_env \<lparr>skipInstall = False, gitInit = False, yes = False\<rparr>) empty_fs
        [Answer ''Meter - A feature-packed starting point'',
         Rejects (JsError ''Error'' ''The prompt broke'' False)]
      = Exited 0
          (emit (ConsoleError (UnexpectedError ''The prompt broke''))
             (emit (PromptInput ''Enter a name for your project:'' ''bsv-app'')
                (emit (PromptList ''Which template would you like to use?''
                         [''Meter - A feature-packed starting point''])
                   (after_preflight empty_fs []))))
   \<and> main (sample_env \<lparr>skipInstall = False, gitInit = False, yes = False\<rparr>) empty_fs
        [Sigint, Answer ''late'']
      = Exited 0
          (emit (ConsoleLog SigintGoodbye)
             (emit (PromptList ''Which template would you like to use?''
                      [''Meter - A feature-packed starting point''])
                (after_preflight empty_fs [Answer ''late''])))"
proof -
  let ?env = "sample_env \<lparr>skipInstall = False, gitInit = False, yes = False\<rparr>"
  let ?opts = "\<lparr>skipInstall = False, gitInit = False, yes = False\<rparr>"
  let ?rs1 = "[Answer ''Meter - A feature-packed starting point'',
         Rejects (JsError ''Error'' ''The prompt broke'' False)]"
  have pre: "git_version_ok ?env" "npm_version_ok ?env" "program_parse ?env = Parsed ?opts"
    "\<not> yes ?opts"
    by (simp_all add: sample_env_def)
  have a1: "ask_all (after_preflight empty_fs ?rs1)
      = Thrown (JsError ''Error'' ''The prompt broke'' False)
          (emit (PromptInput ''Enter a name for your project:'' ''bsv-app'')
             (emit (PromptList ''Which template would you like to use?''
                      [''Meter - A feature-packed starting point''])
                (after_preflight empty_fs [])))"
    by (simp add: ask_all_def prompt_list_def prompt_input_def Object_keys_def templates_def
        after_preflight_def emit_def)
  have a2: "ask_all (after_preflight empty_fs [Sigint, Answer ''late''])
      = Exited 0
          (emit (ConsoleLog SigintGoodbye)
             (emit (PromptList ''Which template would you like to use?''
                      [''Meter - A feature-packed starting point''])
                (after_preflight empty_fs [Answer ''late''])))"
    by (simp add: ask_all_def prompt_list_def prompt_input_def Object_keys_def templates_def
        after_preflight_def emit_def)
  have r: "prompt_catch_report (JsError ''Error'' ''The prompt broke'' False)
      = ConsoleError (UnexpectedError ''The prompt broke'')"
    by (simp add: prompt_catch_report_def)
  from prompt_failures_exit_zero [OF pre, of empty_fs ?rs1] a1 r
  have m1: "main ?env empty_fs ?rs1 = Exited 0
          (emit (ConsoleError (UnexpectedError ''The prompt broke''))
             (emit (PromptInput ''Enter a name for your project:'' ''bsv-app'')
                (emit (PromptList ''Which template would you like to use?''
                         [''Meter - A feature-packed starting point''])
                   (after_preflight empty_fs []))))"
    by simp
  from prompt_failures_exit_zero [OF pre, of empty_fs "[Sigint, Answer ''late'']"] a2
  have m2: "main ?env empty_fs [Sigint, Answer ''late''] = Exited 0
          (emit (ConsoleLog SigintGoodbye)
             (emit (PromptList ''Which template would you like to use?''
                      [''Meter - A feature-packed starting point''])
                (after_preflight empty_fs [Answer ''late''])))"
    by simp
  show ?thesis using pre m1 m2 by simp
qed

subsection \<open>Installing the dependencies\<close>

lemma sample_paths:
  "path_join ''/w/bsv-app'' ''package.json'' = ''/w/bsv-app/package.json''"
  "path_join ''/w/bsv-app'' ''.git'' = ''/w/bsv-app/.git''"
  "path_join ''/w/bsv-app'' ''frontend'' = ''/w/bsv-app/frontend''"
  "path_join ''/w/bsv-app'' ''backend'' = ''/w/bsv-app/backend''"
  "path_join ''/w/bsv-app/frontend'' ''package.json'' = ''/w/bsv-app/frontend/package.json''"
  "path_join ''/w/bsv-app/backend'' ''package.json'' = ''/w/bsv-app/backend/package.json''"
  by (simp_all add: path_join_def path_normalize_def isAbsolute_def sep_def
      normalizeString_def normalize_segments_def normalize_step_def)

text \<open>
  C4. The project root has a manifest, \<open>frontend\<close> exists and has one, \<open>backend\<close>
  exists and has none, each at the moment the script looks, and the two installs
  succeed. Then the installation step runs \<open>npm install\<close> exactly twice, first in the
  root and then in \<open>frontend\<close>, prints a warning for \<open>backend\<close>, and goes on to the
  next step instead of exiting.
\<close>

theorem install_root_frontend_skip_backend:
  assumes "existsSync (files w) (path_join projectDir ''package.json'')"
    and "npm_install env projectDir (files w) = (None, fs1)"
    and "existsSync fs1 (path_join projectDir ''frontend'')"
    and "existsSync fs1 (path_join (path_join projectDir ''frontend'') ''package.json'')"
    and "npm_install env (path_join projectDir ''frontend'') fs1 = (None, fs2)"
    and "existsSync fs2 (path_join projectDir ''backend'')"
    and "\<not> existsSync fs2 (path_join (path_join projectDir ''backend'') ''package.json'')"
  shows "installDependencies env projectDir w
     = Next ()
         (w\<lparr>files := fs2,
            events := events w @
              [ConsoleLog (InstallingIn projectDir),
               ExecSync ''npm install'' (Some projectDir),
               ConsoleLog (InstalledIn projectDir),
               ConsoleLog (InstallingIn (path_join projectDir ''frontend'')),
               ExecSync ''npm install'' (Some (path_join projectDir ''frontend'')),
               ConsoleLog (InstalledIn (path_join projectDir ''frontend'')),
               ConsoleWarn (NoPackageJson (path_join projectDir ''backend''))]\<rparr>)
     \<and> filter (\<lambda>e. kind_of e = KInstall) (events (world_of (installDependencies env projectDir w)))
       = filter (\<lambda>e. kind_of e = KInstall) (events w)
         @ [ExecSync ''npm install'' (Some projectDir),
            ExecSync ''npm install'' (Some (path_join projectDir ''frontend''))]"
proof -
  have 1: "installInDir env projectDir w
      = Next () (w\<lparr>files := fs1, events := events w @
          [ConsoleLog (InstallingIn projectDir), ExecSync ''npm install'' (Some projectDir),
           ConsoleLog (InstalledIn projectDir)]\<rparr>)" (is "_ = Next () ?w1")
    using assms(1,2) by (simp add: installInDir_def emit_def)
  have 2: "installInDir env (path_join projectDir ''frontend'') ?w1
      = Next () (w\<lparr>files := fs2, events := events w @
          [ConsoleLog (InstallingIn projectDir), ExecSync ''npm install'' (Some projectDir),
           ConsoleLog (InstalledIn projectDir),
           ConsoleLog (InstallingIn (path_join projectDir ''frontend'')),
           ExecSync ''npm install'' (Some (path_join projectDir ''frontend'')),
           ConsoleLog (InstalledIn (path_join projectDir ''frontend''))]\<rparr>)"
      (is "_ = Next () ?w2")
    using assms(4,5) by (simp add: installInDir_def emit_def)
  have 3: "installInDir env (path_join projectDir ''backend'') ?w2
      = Next () (emit (ConsoleWarn (NoPackageJson (path_join projectDir ''backend''))) ?w2)"
    using assms(7) by (simp add: installInDir_def)
  have run: "installDependencies env projectDir w
      = Next () (emit (ConsoleWarn (NoPackageJson (path_join projectDir ''backend''))) ?w2)"
    unfolding installDependencies_def Let_def 1
    using assms(3,6) by (simp add: 2 3)
  show ?thesis
    unfolding run by (simp add: emit_def)
qed

theorem install_root_frontend_skip_backend_witness:
  "installDependencies (sample_env \<lparr>skipInstall = False, gitInit = False, yes = False\<rparr>)
     ''/w/bsv-app''
     \<lparr>files = sample_clone ''/w/bsv-app'' empty_fs, events = [], replies = []\<rparr>
   = Next ()
       \<lparr>files = (sample_clone ''/w/bsv-app'' empty_fs)
                  (''/w/bsv-app/node_modules'' \<mapsto> Dir,
                   ''/w/bsv-app/frontend/node_modules'' \<mapsto> Dir),
        events =
          [ConsoleLog (InstallingIn ''/w/bsv-app''),
           ExecSync ''npm install'' (Some ''/w/bsv-app''),
           ConsoleLog (InstalledIn ''/w/bsv-app''),
           ConsoleLog (InstallingIn ''/w/bsv-app/frontend''),
           ExecSync ''npm install'' (Some ''/w/bsv-app/frontend''),
           ConsoleLog (InstalledIn ''/w/bsv-app/frontend''),
           ConsoleWarn (NoPackageJson ''/w/bsv-app/backend'')],
        replies = []\<rparr>"
proof -
  let ?env = "sample_env \<lparr>skipInstall = False, gitInit = False, yes = False\<rparr>"
  let ?fs = "sample_clone ''/w/bsv-app'' empty_fs"
  let ?fs1 = "?fs(''/w/bsv-app/node_modules'' \<mapsto> Dir)"
  let ?fs2 = "?fs1(''/w/bsv-app/frontend/node_modules'' \<mapsto> Dir)"
  let ?w = "\<lparr>files = ?fs, events = [], replies = []\<rparr>"
  have h1: "existsSync (files ?w) (path_join ''/w/bsv-app'' ''package.json'')"
    by (simp add: sample_paths existsSync_def sample_clone_def)
  have h2: "npm_install ?env ''/w/bsv-app'' (files ?w) = (None, ?fs1)"
    by (simp add: sample_env_def)
  have h3: "existsSync ?fs1 (path_join ''/w/bsv-app'' ''frontend'')"
    by (simp add: sample_paths existsSync_def sample_clone_def)
  have h4: "existsSync ?fs1 (path_join (path_join ''/w/bsv-app'' ''frontend'') ''package.json'')"
    by (simp add: sample_paths existsSync_def sample_clone_def)
  have h5: "npm_install ?env (path_join ''/w/bsv-app'' ''frontend'') ?fs1 = (None, ?fs2)"
    by (simp add: sample_paths sample_env_def)
  have h6: "existsSync ?fs2 (path_join ''/w/bsv-app'' ''backend'')"
    by (simp add: sample_paths existsSync_def sample_clone_def)
  have h7: "\<not> existsSync ?fs2 (path_join (path_join ''/w/bsv-app'' ''backend'') ''package.json'')"
    by (simp add: sample_paths existsSync_def sample_clone_def empty_fs_def)
  from install_root_frontend_skip_backend [OF h1 h2 h3 h4 h5 h6 h7]
  have "installDependencies ?env ''/w/bsv-app'' ?w
     = Next ()
         (?w\<lparr>files := ?fs2,
            events := events ?w @
              [ConsoleLog (InstallingIn ''/w/bsv-app''),
               ExecSync ''npm install'' (Some ''/w/bsv-app''),
               ConsoleLog (InstalledIn ''/w/bsv-app''),
               ConsoleLog (InstallingIn (path_join ''/w/bsv-app'' ''frontend'')),
               ExecSync ''npm install'' (Some (path_join ''/w/bsv-app'' ''frontend'')),
               ConsoleLog (InstalledIn (path_join ''/w/bsv-app'' ''frontend'')),
               ConsoleWarn (NoPackageJson (path_join ''/w/bsv-app'' ''backend''))]\<rparr>)"
    by (rule conjunct1)
  then show ?thesis
    unfolding sample_paths by simp
qed

subsection \<open>Rewriting the manifest\<close>

lemma map_of_set_property:
  "map_of (set_property kvs k v) k' = (if k' = k then Some v else map_of kvs k')"
  by (induction kvs k v rule: set_property.induct) auto

lemma others_set_property:
  "\<not> P k \<Longrightarrow>
     filter (\<lambda>kv. P (fst kv)) (set_property kvs k v) = filter (\<lambda>kv. P (fst kv)) kvs"
  by (induction kvs k v rule: set_property.induct) auto

lemma assign_all_customizations:
  "assign_all (JObject kvs) (customizations_of pn an)
     = Inr (JObject
         ((if an \<noteq> [] then (\<lambda>obj. set_property obj ''author'' (JString an)) else id)
            ((if pn \<noteq> [] then (\<lambda>obj. set_property obj ''name'' (JString pn)) else id) kvs)))"
  by (simp add: customizations_of_def)

lemma customize_object:
  assumes "files w (path_join projectDir ''package.json'') = Some (File text)"
    and "JSON_parse env text = Inr (JObject kvs)"
    and "assign_all (JObject kvs) cs = Inr (JObject kvs')"
  shows "customizePackageJson env projectDir cs w
     = Next ()
         (w\<lparr>files := (files w)(path_join projectDir ''package.json''
                  \<mapsto> File (JSON_stringify2 (JObject kvs') @ newline)),
            events := events w @
              [WriteJsonSync (path_join projectDir ''package.json'')
                 (JSON_stringify2 (JObject kvs') @ newline),
               ConsoleLog (ModifiedPackageJson (JSON_stringify2 (JObject kvs')))]\<rparr>)"
  using assms
  by (simp add: customizePackageJson_def existsSync_def readJsonSync_def Let_def emit_def)

lemma stringify_example:
  "JSON_stringify2
     (JObject [(''name'', JString ''foo''), (''version'', JString ''1.0.0''),
               (''author'', JString ''bar'')])
   = ''{\<newline>  \"name\": \"foo\",\<newline>  \"version\": \"1.0.0\",\<newline>  \"author\": \"bar\"\<newline>}''"
  by (simp add: JSON_stringify2_def quote_def escape_char_def newline_def)

text \<open>
  C2. The manifest holds \<open>{"name":"x","version":"1.0.0"}\<close> and the request is for
  the name \<open>foo\<close> and the author \<open>bar\<close>: the step writes the text of
  \<open>{"name":"foo","version":"1.0.0","author":"bar"}\<close>, each member on its own line
  behind two spaces, and a final line break. For any manifest that is an object, \<open>name\<close>
  and \<open>author\<close> are set exactly when the value given is not empty, and the other
  members stay as they are, in their order. When there is no manifest the step leaves
  the world as it is.
\<close>

theorem customize_rewrites_name_and_author:
  "(files w (path_join projectDir ''package.json'') = Some (File text)
      \<and> JSON_parse env text
          = Inr (JObject [(''name'', JString ''x''), (''version'', JString ''1.0.0'')])
    \<longrightarrow> customizePackageJson env projectDir (customizations_of ''foo'' ''bar'') w
        = Next ()
            (w\<lparr>files := (files w)(path_join projectDir ''package.json'' \<mapsto> File
                 ''{\<newline>  \"name\": \"foo\",\<newline>  \"version\": \"1.0.0\",\<newline>  \"author\": \"bar\"\<newline>}\<newline>''),
               events := events w @
                 [WriteJsonSync (path_join projectDir ''package.json'')
                    ''{\<newline>  \"name\": \"foo\",\<newline>  \"version\": \"1.0.0\",\<newline>  \"author\": \"bar\"\<newline>}\<newline>'',
                  ConsoleLog (ModifiedPackageJson
                    ''{\<newline>  \"name\": \"foo\",\<newline>  \"version\": \"1.0.0\",\<newline>  \"author\": \"bar\"\<newline>}'')]\<rparr>))
   \<and> (files w (path_join projectDir ''package.json'') = Some (File text)
      \<and> JSON_parse env text = Inr (JObject kvs)
    \<longrightarrow> (\<exists>kvs'.
          customizePackageJson env projectDir (customizations_of pn an) w
            = Next ()
                (w\<lparr>files := (files w)(path_join projectDir ''package.json''
                         \<mapsto> File (JSON_stringify2 (JObject kvs') @ newline)),
                   events := events w @
                     [WriteJsonSync (path_join projectDir ''package.json'')
                        (JSON_stringify2 (JObject kvs') @ newline),
                      ConsoleLog (ModifiedPackageJson (JSON_stringify2 (JObject kvs')))]\<rparr>)
          \<and> map_of kvs' ''name'' = (if pn \<noteq> [] then Some (JString pn) else map_of kvs ''name'')
          \<and> map_of kvs' ''author''
              = (if an \<noteq> [] then Some (JString an) else map_of kvs ''author'')
          \<and> filter (\<lambda>kv. fst kv \<noteq> ''name'' \<and> fst kv \<noteq> ''author'') kvs'
              = filter (\<lambda>kv. fst kv \<noteq> ''name'' \<and> fst kv \<noteq> ''author'') kvs))
   \<and> (\<not> existsSync (files w) (path_join projectDir ''package.json'')
    \<longrightarrow> customizePackageJson env projectDir cs w = Next () w)"
proof (intro conjI impI)
  assume a: "files w (path_join projectDir ''package.json'') = Some (File text)
      \<and> JSON_parse env text
          = Inr (JObject [(''name'', JString ''x''), (''version'', JString ''1.0.0'')])"
  have "assign_all (JObject [(''name'', JString ''x''), (''version'', JString ''1.0.0'')])
          (customizations_of ''foo'' ''bar'')
        = Inr (JObject [(''name'', JString ''foo''), (''version'', JString ''1.0.0''),
               (''author'', JString ''bar'')])"
    by (simp add: customizations_of_def)
  from customize_object [OF conjunct1 [OF a] conjunct2 [OF a] this]
  show "customizePackageJson env projectDir (customizations_of ''foo'' ''bar'') w
        = Next ()
            (w\<lparr>files := (files w)(path_join projectDir ''package.json'' \<mapsto> File
                 ''{\<newline>  \"name\": \"foo\",\<newline>  \"version\": \"1.0.0\",\<newline>  \"author\": \"bar\"\<newline>}\<newline>''),
               events := events w @
                 [WriteJsonSync (path_join projectDir ''package.json'')
                    ''{\<newline>  \"name\": \"foo\",\<newline>  \"version\": \"1.0.0\",\<newline>  \"author\": \"bar\"\<newline>}\<newline>'',
                  ConsoleLog (ModifiedPackageJson
                    ''{\<newline>  \"name\": \"foo\",\<newline>  \"version\": \"1.0.0\",\<newline>  \"author\": \"bar\"\<newline>}'')]\<rparr>)"
    unfolding stringify_example by (simp add: newline_def)
next
  assume a: "files w (path_join projectDir ''package.json'') = Some (File text)
      \<and> JSON_parse env text = Inr (JObject kvs)"
  let ?kvs' = "(if an \<noteq> [] then (\<lambda>obj. set_property obj ''author'' (JString an)) else id)
            ((if pn \<noteq> [] then (\<lambda>obj. set_property obj ''name'' (JString pn)) else id) kvs)"
  have 1: "customizePackageJson env projectDir (customizations_of pn an) w
            = Next ()
                (w\<lparr>files := (files w)(path_join projectDir ''package.json''
                         \<mapsto> File (JSON_stringify2 (JObject ?kvs') @ newline)),
                   events := events w @
                     [WriteJsonSync (path_join projectDir ''package.json'')
                        (JSON_stringify2 (JObject ?kvs') @ newline),
                      ConsoleLog (ModifiedPackageJson (JSON_stringify2 (JObject ?kvs')))]\<rparr>)"
    by (rule customize_object [OF conjunct1 [OF a] conjunct2 [OF a] assign_all_customizations])
  have 2: "map_of ?kvs' ''name'' = (if pn \<noteq> [] then Some (JString pn) else map_of kvs ''name'')"
    by (simp add: map_of_set_property)
  have 3: "map_of ?kvs' ''author''
      = (if an \<noteq> [] then Some (JString an) else map_of kvs ''author'')"
    by (simp add: map_of_set_property)
  have 4: "filter (\<lambda>kv. fst kv \<noteq> ''name'' \<and> fst kv \<noteq> ''author'') ?kvs'
      = filter (\<lambda>kv. fst kv \<noteq> ''name'' \<and> fst kv \<noteq> ''author'') kvs"
    using others_set_property [of "\<lambda>k. k \<noteq> ''name'' \<and> k \<noteq> ''author''"]
    by simp
  show "\<exists>kvs'.
          customizePackageJson env projectDir (customizations_of pn an) w
            = Next ()
                (w\<lparr>files := (files w)(path_join projectDir ''package.json''
                         \<mapsto> File (JSON_stringify2 (JObject kvs') @ newline)),
                   events := events w @
                     [WriteJsonSync (path_join projectDir ''package.json'')
                        (JSON_stringify2 (JObject kvs') @ newline),
                      ConsoleLog (ModifiedPackageJson (JSON_stringify2 (JObject kvs')))]\<rparr>)
          \<and> map_of kvs' ''name'' = (if pn \<noteq> [] then Some (JString pn) else map_of kvs ''name'')
          \<and> map_of kvs' ''author''
              = (if an \<noteq> [] then Some (JString an) else map_of kvs ''author'')
          \<and> filter (\<lambda>kv. fst kv \<noteq> ''name'' \<and> fst kv \<noteq> ''author'') kvs'
              = filter (\<lambda>kv. fst kv \<noteq> ''name'' \<and> fst kv \<noteq> ''author'') kvs"
    using 1 2 3 4 by blast
next
  assume "\<not> existsSync (files w) (path_join projectDir ''package.json'')"
  then show "customizePackageJson env projectDir cs w = Next () w"
    by (simp add: customizePackageJson_def)
qed

theorem customize_rewrites_name_and_author_witness:
  "files \<lparr>files = sample_clone ''/w/bsv-app'' empty_fs, events = [], replies = []\<rparr>
     (path_join ''/w/bsv-app'' ''package.json'') = Some (File sample_manifest)
   \<and> JSON_parse (sample_env \<lparr>skipInstall = False, gitInit = False, yes = False\<rparr>) sample_manifest
       = Inr (JObject [(''name'', JString ''x''), (''version'', JString ''1.0.0'')])
   \<and> customizePackageJson (sample_env \<lparr>skipInstall = False, gitInit = False, yes = False\<rparr>)
        ''/w/bsv-app'' (customizations_of ''foo'' ''bar'')
        \<lparr>files = sample_clone ''/w/bsv-app'' empty_fs, events = [], replies = []\<rparr>
      = Next ()
          \<lparr>files = (sample_clone ''/w/bsv-app'' empty_fs)(''/w/bsv-app/package.json'' \<mapsto> File
             ''{\<newline>  \"name\": \"foo\",\<newline>  \"version\": \"1.0.0\",\<newline>  \"author\": \"bar\"\<newline>}\<newline>''),
           events =
             [WriteJsonSync ''/w/bsv-app/package.json''
                ''{\<newline>  \"name\": \"foo\",\<newline>  \"version\": \"1.0.0\",\<newline>  \"author\": \"bar\"\<newline>}\<newline>'',
              ConsoleLog (ModifiedPackageJson
                ''{\<newline>  \"name\": \"foo\",\<newline>  \"version\": \"1.0.0\",\<newline>  \"author\": \"bar\"\<newline>}'')],
           replies = []\<rparr>
   \<and> \<not> existsSync empty_fs (path_join ''/w/bsv-app'' ''package.json'')
   \<and> customizePackageJson (sample_env \<lparr>skipInstall = False, gitInit = False, yes = False\<rparr>)
        ''/w/bsv-app'' (customizations_of ''foo'' ''bar'')
        \<lparr>files = empty_fs, events = [], replies = []\<rparr>
      = Next () \<lparr>files = empty_fs, events = [], replies = []\<rparr>"
proof -
  let ?env = "sample_env \<lparr>skipInstall = False, gitInit = False, yes = False\<rparr>"
  let ?w = "\<lparr>files = sample_clone ''/w/bsv-app'' empty_fs, events = [], replies = []\<rparr>"
  let ?bare = "\<lparr>files = empty_fs, events = [], replies = []\<rparr>"
  have f: "files ?w (path_join ''/w/bsv-app'' ''package.json'') = Some (File sample_manifest)"
    by (simp add: sample_paths sample_clone_def)
  have j: "JSON_parse ?env sample_manifest
      = Inr (JObject [(''name'', JString ''x''), (''version'', JString ''1.0.0'')])"
    by (simp add: sample_env_def)
  have n: "\<not> existsSync (files ?bare) (path_join ''/w/bsv-app'' ''package.json'')"
    by (simp add: existsSync_def empty_fs_def)
  note t1 = customize_rewrites_name_and_author
    [of ?w "''/w/bsv-app''" sample_manifest ?env "[]" "[]" "[]" "[]", THEN conjunct1, rule_format]
  note t3 = customize_rewrites_name_and_author
    [of ?bare "''/w/bsv-app''" sample_manifest ?env "[]" "[]" "[]"
        "customizations_of ''foo'' ''bar''", THEN conjunct2, THEN conjunct2, rule_format]
  have r1: "customizePackageJson ?env ''/w/bsv-app'' (customizations_of ''foo'' ''bar'') ?w
      = Next ()
          \<lparr>files = (sample_clone ''/w/bsv-app'' empty_fs)(''/w/bsv-app/package.json'' \<mapsto> File
             ''{\<newline>  \"name\": \"foo\",\<newline>  \"version\": \"1.0.0\",\<newline>  \"author\": \"bar\"\<newline>}\<newline>''),
           events =
             [WriteJsonSync ''/w/bsv-app/package.json''
                ''{\<newline>  \"name\": \"foo\",\<newline>  \"version\": \"1.0.0\",\<newline>  \"author\": \"bar\"\<newline>}\<newline>'',
              ConsoleLog (ModifiedPackageJson
                ''{\<newline>  \"name\": \"foo\",\<newline>  \"version\": \"1.0.0\",\<newline>  \"author\": \"bar\"\<newline>}'')],
           replies = []\<rparr>"
    using t1 [OF conjI [OF f j]] unfolding sample_paths by simp
  have r3: "customizePackageJson ?env ''/w/bsv-app'' (customizations_of ''foo'' ''bar'') ?bare
      = Next () ?bare"
    by (rule t3 [OF n])
  show ?thesis
    using f j n r1 r3 by simp
qed

subsection \<open>Where the target lies\<close>

lemma split_sep_not_Nil: "split_sep s \<noteq> []"
  by (induction s) (auto split: list.splits)

lemma split_sep_append: "split_sep (a @ sep # b) = split_sep a @ split_sep b"
proof (induction a)
  case Nil
  show ?case by simp
next
  case (Cons c cs)
  show ?case
  proof (cases "c = sep")
    case True
    with Cons show ?thesis by simp
  next
    case False
    obtain s ss where s: "split_sep cs = s # ss"
      using split_sep_not_Nil [of cs] by (cases "split_sep cs") auto
    with False Cons show ?thesis by simp
  qed
qed

lemma split_sep_no_sep: "sep \<notin> set s \<Longrightarrow> split_sep s = [s]"
  by (induction s) auto

lemma split_sep_segments: "x \<in> set (split_sep s) \<Longrightarrow> sep \<notin> set x"
proof (induction s arbitrary: x)
  case Nil
  then show ?case by simp
next
  case (Cons c cs)
  obtain s ss where s: "split_sep cs = s # ss"
    using split_sep_not_Nil [of cs] by (cases "split_sep cs") auto
  with Cons show ?case by (auto split: if_splits)
qed

lemma split_join:
  "xs \<noteq> [] \<Longrightarrow> (\<And>x. x \<in> set xs \<Longrightarrow> sep \<notin> set x) \<Longrightarrow> split_sep (join_sep xs) = xs"
proof (induction xs rule: join_sep.induct)
  case 1
  then show ?case by simp
next
  case (2 s)
  then show ?case by (simp add: split_sep_no_sep)
next
  case (3 s t ss)
  then show ?case by (simp add: split_sep_append split_sep_no_sep)
qed

lemma normalize_step_plain: "plain_segment s \<Longrightarrow> normalize_step a res s = s # res"
  by (simp add: normalize_step_def plain_segment_def)

lemma normalize_step_skip: "s = [] \<or> s = ''.'' \<Longrightarrow> normalize_step a res s = res"
  by (auto simp: normalize_step_def)

lemma normalize_step_up:
  "set (normalize_step False res ''..'') \<subseteq> set res"
  by (cases res) (auto simp: normalize_step_def)

lemma normalize_step_cases:
  "s = [] \<or> s = ''.'' \<or> s = ''..'' \<or> plain_segment s"
  by (auto simp: plain_segment_def)

lemma normalize_step_members:
  "x \<in> set (normalize_step False res s) \<Longrightarrow> x \<in> set res \<or> (x = s \<and> plain_segment s)"
  using normalize_step_cases [of s] normalize_step_up [of res]
  by (auto simp: normalize_step_plain normalize_step_skip)

lemma foldl_normalize_members:
  "x \<in> set (foldl (normalize_step False) res xs) \<Longrightarrow>
     x \<in> set res \<or> (x \<in> set xs \<and> plain_segment x)"
proof (induction xs arbitrary: res)
  case Nil
  then show ?case by simp
next
  case (Cons s ss)
  from Cons.prems have "x \<in> set (foldl (normalize_step False) (normalize_step False res s) ss)"
    by simp
  from Cons.IH [OF this] show ?case
    using normalize_step_members [of x res s] by auto
qed

lemma foldl_normalize_plain:
  "(\<And>x. x \<in> set xs \<Longrightarrow> plain_segment x) \<Longrightarrow>
     foldl (normalize_step a) res xs = rev xs @ res"
  by (induction xs arbitrary: res) (simp_all add: normalize_step_plain)

lemma normalize_step_keeps:
  "s \<noteq> ''..'' \<Longrightarrow> \<exists>zs. normalize_step a res s = zs @ res"
  using normalize_step_cases [of s]
  by (auto simp: normalize_step_plain normalize_step_skip)

lemma foldl_normalize_keeps:
  "''..'' \<notin> set ys \<Longrightarrow> \<exists>zs. foldl (normalize_step a) res ys = zs @ res"
proof (induction ys arbitrary: res)
  case Nil
  then show ?case by simp
next
  case (Cons s ss)
  from Cons.prems obtain zs where 1: "normalize_step a res s = zs @ res"
    using normalize_step_keeps [of s a res] by auto
  from Cons.prems Cons.IH [of "zs @ res"] obtain zs' where
    "foldl (normalize_step a) (zs @ res) ss = zs' @ zs @ res" by auto
  with 1 show ?case by simp
qed

lemma canonical_append:
  "canonical (a @ sep # b)
     = rev (foldl (normalize_step False) (rev (canonical a)) (split_sep b))"
  by (simp add: canonical_def normalize_segments_def split_sep_append)

lemma canonical_resolved: "canonical (sep # normalizeString p False) = canonical p"
proof -
  let ?N = "normalize_segments False (split_sep p)"
  have plain: "plain_segment x" and nosep: "sep \<notin> set x" if "x \<in> set ?N" for x
    using foldl_normalize_members [of x "[]" "split_sep p"] that split_sep_segments
    by (auto simp: normalize_segments_def)
  show ?thesis
  proof (cases "?N = []")
    case True
    then show ?thesis
      by (simp add: canonical_def normalizeString_def normalize_segments_def
          normalize_step_skip)
  next
    case False
    have "split_sep (join_sep ?N) = ?N"
      using False nosep by (rule split_join)
    then have "canonical (sep # normalizeString p False) = normalize_segments False ?N"
      by (simp add: canonical_def normalizeString_def normalize_segments_def [of False "[] # _"]
          normalize_step_skip)
         (simp add: normalize_segments_def)
    also have "\<dots> = ?N"
      using foldl_normalize_plain [of ?N False "[]"] plain
      by (simp add: normalize_segments_def [of False ?N])
    finally show ?thesis by (simp add: canonical_def)
  qed
qed

lemma path_resolve_relative:
  assumes "isAbsolute cwd" and "name \<noteq> []" and "\<not> isAbsolute name"
  shows "path_resolve cwd [cwd, name] = sep # normalizeString (cwd @ sep # name @ [sep]) False"
proof -
  from assms(1) have "cwd \<noteq> []" by (auto simp: isAbsolute_def)
  with assms show ?thesis by (simp add: path_resolve_def)
qed

lemma path_resolve_absolute:
  assumes "isAbsolute name"
  shows "path_resolve cwd [cwd, name] = sep # normalizeString (name @ [sep]) False"
proof -
  from assms have "name \<noteq> []" by (auto simp: isAbsolute_def)
  with assms show ?thesis by (simp add: path_resolve_def)
qed

text \<open>
  C6, as the claim states it, fails: the name \<open>../x\<close> is not empty, so the prompt
  accepts it, and in the working directory \<open>/w\<close> it resolves to \<open>/x\<close>, which does not
  lie under \<open>/w\<close>.
\<close>

theorem target_outside_cwd_counterexample:
  "validate_projectName ''../x'' = None
   \<and> resolve_target (sample_env \<lparr>skipInstall = False, gitInit = False, yes = False\<rparr>) ''../x''
       = ''/x''
   \<and> \<not> lies_under (process_cwd (sample_env \<lparr>skipInstall = False, gitInit = False, yes = False\<rparr>))
         (resolve_target (sample_env \<lparr>skipInstall = False, gitInit = False, yes = False\<rparr>)
            ''../x'')"
  by (simp add: validate_projectName_def resolve_target_def sample_env_def path_resolve_def
      isAbsolute_def sep_def normalizeString_def normalize_segments_def normalize_step_def
      lies_under_def canonical_def)

text \<open>
  C6, amended. The working directory is absolute and the name is one the prompt accepts
  (not empty). Then the target is an absolute path. It lies under the working directory
  when the name is relative and none of its segments is \<open>..\<close>; an absolute name
  resolves to itself, whatever the working directory is.
\<close>

theorem target_absolute_and_under_cwd_when_plain:
  assumes "isAbsolute (process_cwd env)" and "validate_projectName name = None"
  shows "isAbsolute (resolve_target env name)
     \<and> (\<not> isAbsolute name \<and> ''..'' \<notin> set (split_sep name)
          \<longrightarrow> lies_under (process_cwd env) (resolve_target env name))
     \<and> (isAbsolute name \<longrightarrow> canonical (resolve_target env name) = canonical name)"
proof (intro conjI impI)
  from assms(2) have ne: "name \<noteq> []"
    by (auto simp: validate_projectName_def split: if_splits)
  show "isAbsolute (resolve_target env name)"
  proof (cases "isAbsolute name")
    case True
    then show ?thesis by (simp add: resolve_target_def path_resolve_absolute isAbsolute_def)
  next
    case False
    with assms(1) ne show ?thesis
      by (simp add: resolve_target_def path_resolve_relative) (simp add: isAbsolute_def)
  qed
  {
    assume a: "\<not> isAbsolute name \<and> ''..'' \<notin> set (split_sep name)"
    let ?cwd = "process_cwd env"
    have "canonical (resolve_target env name) = canonical (?cwd @ sep # name @ [sep])"
      using assms(1) ne a by (simp add: resolve_target_def path_resolve_relative canonical_resolved)
    also have "\<dots> = rev (foldl (normalize_step False) (rev (canonical ?cwd))
        (split_sep name @ [[]]))"
      using split_sep_append [of name "[]"] by (simp add: canonical_append)
    finally have c: "canonical (resolve_target env name)
        = rev (foldl (normalize_step False) (rev (canonical ?cwd)) (split_sep name @ [[]]))" .
    have "''..'' \<notin> set (split_sep name @ [[]])" using a by simp
    from foldl_normalize_keeps [OF this, of False "rev (canonical ?cwd)"]
    show "lies_under ?cwd (resolve_target env name)"
      by (auto simp: lies_under_def c)
  }
  {
    assume a: "isAbsolute name"
    have "canonical (resolve_target env name) = canonical (name @ [sep])"
      using a by (simp add: resolve_target_def path_resolve_absolute canonical_resolved)
    also have "\<dots> = canonical name"
      using split_sep_append [of name "[]"]
      by (simp add: canonical_def normalize_segments_def normalize_step_skip)
    finally show "canonical (resolve_target env name) = canonical name" .
  }
qed

theorem target_absolute_and_under_cwd_when_plain_witness:
  "isAbsolute (process_cwd (sample_env \<lparr>skipInstall = False, gitInit = False, yes = False\<rparr>))
   \<and> validate_projectName ''my-app'' = None
   \<and> \<not> isAbsolute ''my-app''
   \<and> ''..'' \<notin> set (split_sep ''my-app'')
   \<and> resolve_target (sample_env \<lparr>skipInstall = False, gitInit = False, yes = False\<rparr>) ''my-app''
       = ''/w/my-app''
   \<and> isAbsolute (resolve_target (sample_env \<lparr>skipInstall = False, gitInit = False, yes = False\<rparr>)
        ''my-app'')
   \<and> lies_under (process_cwd (sample_env \<lparr>skipInstall = False, gitInit = False, yes = False\<rparr>))
        (resolve_target (sample_env \<lparr>skipInstall = False, gitInit = False, yes = False\<rparr>)
           ''my-app'')"
proof -
  let ?env = "sample_env \<lparr>skipInstall = False, gitInit = False, yes = False\<rparr>"
  have h1: "isAbsolute (process_cwd ?env)"
    by (simp add: sample_env_def isAbsolute_def sep_def)
  have h2: "validate_projectName ''my-app'' = None"
    by (simp add: validate_projectName_def)
  have h3: "\<not> isAbsolute ''my-app'' \<and> ''..'' \<notin> set (split_sep ''my-app'')"
    by (simp add: isAbsolute_def sep_def)
  have r: "resolve_target ?env ''my-app'' = ''/w/my-app''"
    by (simp add: resolve_target_def sample_env_def path_resolve_def isAbsolute_def sep_def
        normalizeString_def normalize_segments_def normalize_step_def)
  from target_absolute_and_under_cwd_when_plain [OF h1 h2] h3
  have "isAbsolute (resolve_target ?env ''my-app'')
      \<and> lies_under (process_cwd ?env) (resolve_target ?env ''my-app'')"
    by blast
  with h1 h2 h3 r show ?thesis by simp
qed

subsection \<open>A manifest that is not JSON\<close>

text \<open>
  \<open>path.join\<close> puts the same text in front of every plain child name, so the manifest
  \<open>package.json\<close> is never inside the \<open>.git\<close> directory that the history strip
  removes.
\<close>

lemma join_sep_snoc: "join_sep (xs @ [s]) = (if xs = [] then s else join_sep xs @ sep # s)"
  by (induction xs rule: join_sep.induct) simp_all

lemma path_join_child:
  "\<exists>b. \<forall>s. plain_segment s \<and> sep \<notin> set s \<longrightarrow> path_join d s = b @ s"
proof (cases "d = []")
  case True
  have "path_join d s = [] @ s" if "plain_segment s \<and> sep \<notin> set s" for s
  proof -
    from that have ne: "s \<noteq> []" by (simp add: plain_segment_def)
    then have "last s \<in> set s" by simp
    with that have l: "last s \<noteq> sep" by auto
    from ne that have a: "\<not> isAbsolute s" by (cases s) (auto simp: isAbsolute_def)
    from that have n: "normalizeString s True = s"
      by (simp add: normalizeString_def normalize_segments_def split_sep_no_sep
          normalize_step_plain)
    show ?thesis
      using True ne l a n by (simp add: path_join_def path_normalize_def Let_def)
  qed
  then show ?thesis by blast
next
  case False
  let ?abs = "isAbsolute d"
  let ?N = "normalize_segments (\<not> ?abs) (split_sep d)"
  let ?b = "(if ?abs then [sep] else []) @ (if ?N = [] then [] else join_sep ?N @ [sep])"
  have "path_join d s = ?b @ s" if "plain_segment s \<and> sep \<notin> set s" for s
  proof -
    from that have ne: "s \<noteq> []" by (simp add: plain_segment_def)
    then have "last s \<in> set s" by simp
    with that have "last s \<noteq> sep" by auto
    with ne have l: "last (d @ sep # s) \<noteq> sep" by simp
    from False have a: "isAbsolute (d @ sep # s) = ?abs"
      by (cases d) (auto simp: isAbsolute_def)
    from that have "normalize_segments (\<not> ?abs) (split_sep (d @ sep # s)) = ?N @ [s]"
      by (simp add: normalize_segments_def split_sep_append split_sep_no_sep
          normalize_step_plain)
    then have n: "normalizeString (d @ sep # s) (\<not> ?abs)
        = (if ?N = [] then s else join_sep ?N @ sep # s)"
      by (simp add: normalizeString_def join_sep_snoc)
    from ne ne have nn: "normalizeString (d @ sep # s) (\<not> ?abs) \<noteq> []"
      unfolding n by simp
    have "path_join d s = path_normalize (d @ sep # s)"
      using False ne by (simp add: path_join_def)
    also have "\<dots> = (if ?abs then sep # normalizeString (d @ sep # s) (\<not> ?abs)
        else normalizeString (d @ sep # s) (\<not> ?abs))"
      using l nn a by (simp add: path_normalize_def Let_def)
    also have "\<dots> = ?b @ s"
      unfolding n by simp
    finally show ?thesis .
  qed
  then show ?thesis by blast
qed

lemma manifest_outside_git:
  "removeSync fs (path_join d ''.git'') (path_join d ''package.json'')
     = fs (path_join d ''package.json'')"
proof -
  obtain b where b: "\<And>s. plain_segment s \<and> sep \<notin> set s \<Longrightarrow> path_join d s = b @ s"
    using path_join_child [of d] by blast
  have 1: "path_join d ''.git'' = b @ ''.git''"
    by (rule b) (simp add: plain_segment_def sep_def)
  have 2: "path_join d ''package.json'' = b @ ''package.json''"
    by (rule b) (simp add: plain_segment_def sep_def)
  show ?thesis
    unfolding 1 2 by (simp add: removeSync_def)
qed

lemma files_emit: "files (emit e w) = files w"
  by (simp add: emit_def)

lemma files_prompt_loop: "files (world_of (prompt_loop accept rs w)) = files w"
  by (induction accept rs w rule: prompt_loop.induct) (auto simp: files_emit split: option.splits)

lemma files_and_then:
  "files (world_of m) = fs \<Longrightarrow> (\<And>x w1. files (world_of (f x w1)) = files w1)
     \<Longrightarrow> files (world_of (and_then m f)) = fs"
  by (cases m) auto

lemma files_ask_all: "files (world_of (ask_all w)) = files w"
  unfolding ask_all_def prompt_list_def prompt_input_def
  by (intro files_and_then) (simp_all add: files_prompt_loop files_emit)

lemma files_interaction: "files (world_of (interaction opts w)) = files w"
  using files_ask_all [of w]
  by (auto simp: interaction_def prompt_catch_def files_emit split: step.splits)

lemma files_stripHistory_manifest:
  "files (stripHistory d w) (path_join d ''package.json'') = files w (path_join d ''package.json'')"
  by (simp add: stripHistory_def Let_def files_emit manifest_outside_git)

lemma emits_kinds:
  "emits K w w' \<Longrightarrow> kind_of ` set (events w) \<subseteq> K \<Longrightarrow> kind_of ` set (events w') \<subseteq> K"
  by (auto simp: emits_def image_subset_iff)

text \<open>
  C10. Both tools are present, the interaction flow has produced a request, the target
  is free, the clone succeeds and the cloned tree has a manifest file that
  \<open>JSON.parse\<close> rejects. Then the customization step does not skip the manifest: the
  \<open>SyntaxError\<close> leaves \<open>run\<close>, the top-level handler prints it and the process exits
  with code 1. The file system is the cloned tree after the history strip, with the
  manifest as it was cloned; nothing was written, installed or initialised.
\<close>

theorem unparseable_manifest_exits_1:
  assumes "git_version_ok env" and "npm_version_ok env"
    and "program_parse env = Parsed opts"
    and "interaction opts (after_preflight fs rs) = Next req w3"
    and "\<not> existsSync fs (resolve_target env (projectName req))"
    and "git_clone env (templates_lookup (template req)) (resolve_target env (projectName req)) fs
           = (None, fs1)"
    and "fs1 (path_join (resolve_target env (projectName req)) ''package.json'')
           = Some (File text)"
    and "JSON_parse env text = Inl msg"
  shows "\<exists>w'. main env fs rs = Exited 1 w'
     \<and> files w'
         = files (stripHistory (resolve_target env (projectName req))
                    \<lparr>files = fs1, events = [], replies = []\<rparr>)
     \<and> files w' (path_join (resolve_target env (projectName req)) ''package.json'')
         = Some (File text)
     \<and> last (events w') = ConsoleError (UncaughtError (SyntaxError msg))
     \<and> kind_of ` set (events w') \<subseteq> {KConsole, KProbe, KPrompt, KClone, KRemove}"
proof -
  let ?d = "resolve_target env (projectName req)"
  let ?url = "templates_lookup (template req)"
  let ?K = "{KConsole, KProbe, KPrompt, KClone, KRemove}"
  let ?w4 = "emit (ConsoleLog (ClonedTo ?d))
      ((emit (GitClone ?url ?d) (emit (ConsoleLog (CloningFrom ?url)) w3))\<lparr>files := fs1\<rparr>)"
  let ?w5 = "stripHistory ?d ?w4"
  have f3: "files w3 = fs"
    using files_interaction [of opts "after_preflight fs rs"] assms(4)
    by (simp add: after_preflight_def)
  have k3: "kind_of ` set (events w3) \<subseteq> ?K"
  proof (rule emits_kinds)
    show "emits ?K (after_preflight fs rs) w3"
      using emits_interaction [of ?K "after_preflight fs rs" opts] assms(4) by simp
    show "kind_of ` set (events (after_preflight fs rs)) \<subseteq> ?K"
      by (simp add: after_preflight_def)
  qed
  have clone: "cloneTemplate env ?url ?d w3 = Next () ?w4"
    using assms(6) f3 by (simp add: cloneTemplate_def Let_def files_emit)
  have f5: "files ?w5 = files (stripHistory ?d \<lparr>files = fs1, events = [], replies = []\<rparr>)"
    by (simp add: stripHistory_def Let_def emit_def)
  have m5: "files ?w5 (path_join ?d ''package.json'') = Some (File text)"
    using assms(7) by (simp add: files_stripHistory_manifest files_emit)
  have k5: "kind_of ` set (events ?w5) \<subseteq> ?K"
    using k3 by (auto simp: stripHistory_def Let_def emit_def)
  have cust: "customizePackageJson env ?d (customizations_of (projectName req) (authorName req)) ?w5
      = Thrown (SyntaxError msg) ?w5"
    using m5 assms(8)
    by (simp add: customizePackageJson_def Let_def existsSync_def readJsonSync_def)
  have "materialize env opts req w3 = Thrown (SyntaxError msg) ?w5"
    using assms(5) f3 clone cust by (simp add: materialize_def Let_def after_clone_def)
  then have "run env \<lparr>files = fs, events = [], replies = rs\<rparr> = Thrown (SyntaxError msg) ?w5"
    using assms(4) by (simp add: run_after_preflight [OF assms(1-3)])
  then have "main env fs rs
      = Exited 1 (emit (ConsoleError (UncaughtError (SyntaxError msg))) ?w5)"
    by (simp add: main_def)
  moreover have "files (emit (ConsoleError (UncaughtError (SyntaxError msg))) ?w5)
      = files (stripHistory ?d \<lparr>files = fs1, events = [], replies = []\<rparr>)"
    using f5 by (simp add: files_emit)
  moreover have "files (emit (ConsoleError (UncaughtError (SyntaxError msg))) ?w5)
      (path_join ?d ''package.json'') = Some (File text)"
    using m5 by (simp add: files_emit)
  moreover have "last (events (emit (ConsoleError (UncaughtError (SyntaxError msg))) ?w5))
      = ConsoleError (UncaughtError (SyntaxError msg))"
    by (simp add: emit_def)
  moreover have "kind_of ` set (events (emit (ConsoleError (UncaughtError (SyntaxError msg))) ?w5))
      \<subseteq> ?K"
    using k5 by (simp add: emit_def)
  ultimately show ?thesis by blast
qed

theorem unparseable_manifest_exits_1_witness:
  "\<exists>w'. main ((sample_env \<lparr>skipInstall = False, gitInit = False, yes = True\<rparr>)
                 \<lparr>JSON_parse := \<lambda>_. Inl ''Unexpected token''\<rparr>) empty_fs []
          = Exited 1 w'
     \<and> files w' ''/w/bsv-app/package.json'' = Some (File sample_manifest)
     \<and> files w' ''/w/bsv-app/frontend'' = Some Dir
     \<and> files w' ''/w/bsv-app/.git/HEAD'' = None
     \<and> last (events w') = ConsoleError (UncaughtError (SyntaxError ''Unexpected token''))"
proof -
  let ?opts = "\<lparr>skipInstall = False, gitInit = False, yes = True\<rparr>"
  let ?env = "(sample_env ?opts)\<lparr>JSON_parse := \<lambda>_. Inl ''Unexpected token''\<rparr>"
  let ?req = "\<lparr>template = ''meter'', projectName = ''bsv-app'', authorName = []\<rparr>"
  let ?tree = "sample_clone ''/w/bsv-app'' empty_fs"
  have t: "resolve_target ?env ''bsv-app'' = ''/w/bsv-app''"
    using sample_target [of ?opts] by (simp add: resolve_target_def sample_env_def)
  have h1: "git_version_ok ?env" and h2: "npm_version_ok ?env"
    and h3: "program_parse ?env = Parsed ?opts"
    by (simp_all add: sample_env_def)
  have h4: "interaction ?opts (after_preflight empty_fs [])
      = Next ?req (after_preflight empty_fs [])"
    by (simp add: interaction_def)
  have h5: "\<not> existsSync empty_fs (resolve_target ?env (projectName ?req))"
    by (simp add: t existsSync_def empty_fs_def)
  have h6: "git_clone ?env (templates_lookup (template ?req))
      (resolve_target ?env (projectName ?req)) empty_fs = (None, ?tree)"
    by (simp add: t) (simp add: sample_env_def)
  have h7: "?tree (path_join (resolve_target ?env (projectName ?req)) ''package.json'')
      = Some (File sample_manifest)"
    by (simp add: t sample_paths) (simp add: sample_clone_def)
  have h8: "JSON_parse ?env sample_manifest = Inl ''Unexpected token''"
    by simp
  from unparseable_manifest_exits_1 [OF h1 h2 h3 h4 h5 h6 h7 h8]
  obtain w' where w: "main ?env empty_fs [] = Exited 1 w'"
    and f: "files w' = files (stripHistory (resolve_target ?env (projectName ?req))
                    \<lparr>files = ?tree, events = [], replies = []\<rparr>)"
    and l: "last (events w') = ConsoleError (UncaughtError (SyntaxError ''Unexpected token''))"
    by blast
  have s: "files (stripHistory (resolve_target ?env (projectName ?req))
                    \<lparr>files = ?tree, events = [], replies = []\<rparr>)
      = removeSync ?tree ''/w/bsv-app/.git''"
  proof -
    have "existsSync ?tree ''/w/bsv-app/.git''"
      by (simp add: existsSync_def sample_clone_def)
    then show ?thesis
      by (simp add: t) (simp add: stripHistory_def Let_def sample_paths files_emit)
  qed
  have "files w' ''/w/bsv-app/package.json'' = Some (File sample_manifest)"
    and "files w' ''/w/bsv-app/frontend'' = Some Dir"
    and "files w' ''/w/bsv-app/.git/HEAD'' = None"
    unfolding f s by (simp_all add: removeSync_def sep_def sample_clone_def)
  with w l show ?thesis by blast
qed

end
